theory Spec2Isabelle
  imports Main "HOL-Library.Multiset"
begin

section \<open>Data model of diagnosticsSupport.ts\<close>

text \<open>
  The module client/src/language/diagnosticsSupport.ts takes the diagnostics that external
  linters attach to a generated embedded-language document, maps them onto the original
  recipe and publishes the ones that survive its filters. Strings are lists of characters,
  one element for each code unit of the JavaScript string.
\<close>

datatype EmbeddedLanguageType = Python | Bash

record position =
  line :: nat
  character :: nat

record range =
  rstart :: position
  rend :: position

record uri =
  uriString :: string
  fsPath :: string

record location =
  locationUri :: uri
  locationRange :: range

text \<open>
  The field \<open>code\<close> of a diagnostic is, in the host's declaration,
  \<^verbatim>\<open>string | number | { value: string | number; target: Uri }\<close>, and may be absent.
\<close>

datatype codeValue = StringValue string | NumberValue int

datatype diagnosticCode =
    CodeString string
  | CodeNumber int
  | CodeObject codeValue uri

datatype DiagnosticSeverity = Error | Warning | Information | Hint

datatype DiagnosticTag = Unnecessary | Deprecated

record relatedInformation =
  relatedLocation :: location
  relatedMessage :: string

text \<open>
  A diagnostic as the host hands it over. \<open>hasDiagnosticCode\<close> is the extra property
  that the anonymous-function rule reads through a cast to \<^verbatim>\<open>any\<close>; \<open>None\<close> stands
  for an absent property, and the rule compares the value with \<^verbatim>\<open>=== false\<close> only.
  Every further property of the object lives in the extension
  part of the record scheme, so that the object spread of updateDiagnostics can be
  followed on properties this module never names.
\<close>

record diagnostic =
  drange :: range
  message :: string
  severity :: DiagnosticSeverity
  source :: "string option"
  code :: "diagnosticCode option"
  relatedInfo :: "relatedInformation list option"
  tags :: "DiagnosticTag list option"
  hasDiagnosticCode :: "bool option"

text \<open>
  A text document of the host: its uri and its method \<^verbatim>\<open>getText(range)\<close>.
\<close>

record textDocument =
  docUri :: uri
  getText :: "range \<Rightarrow> string"

record embeddedLanguageDocInfos =
  infosUri :: uri
  characterIndexes :: "nat list"

section \<open>String operations of the host language\<close>

text \<open>\<^verbatim>\<open>String.prototype.startsWith\<close> and \<^verbatim>\<open>String.prototype.includes\<close>.\<close>

fun startsWith :: "string \<Rightarrow> string \<Rightarrow> bool" where
  "startsWith s [] = True"
| "startsWith [] (c # cs) = False"
| "startsWith (x # xs) (c # cs) = (x = c \<and> startsWith xs cs)"

fun stringIncludes :: "string \<Rightarrow> string \<Rightarrow> bool" where
  "stringIncludes [] sub = (sub = [])"
| "stringIncludes (x # xs) sub = (startsWith (x # xs) sub \<or> stringIncludes xs sub)"

text \<open>The classes \<^verbatim>\<open>\d\<close> and \<^verbatim>\<open>\w\<close> of a regular expression without flags.\<close>

definition isDigit :: "char \<Rightarrow> bool" where
  "isDigit c = (c \<in> set ''0123456789'')"

definition isWordChar :: "char \<Rightarrow> bool" where
  "isWordChar c =
     (c \<in> set ''abcdefghijklmnopqrstuvwxyzABCDEFGHIJKLMNOPQRSTUVWXYZ0123456789_'')"

text \<open>\<^verbatim>\<open>Number(s)\<close> on a string of decimal digits.\<close>

definition digitValue :: "char \<Rightarrow> nat" where
  "digitValue c = of_char c - 48"

definition Number :: "string \<Rightarrow> nat" where
  "Number s = foldl (\<lambda>acc c. 10 * acc + digitValue c) 0 s"

section \<open>Regular expressions\<close>

text \<open>
  The five regular expressions of the module use literal characters, \<^verbatim>\<open>\w+\<close> and
  \<^verbatim>\<open>\d+\<close>, named groups, and the assertions \<^verbatim>\<open>^\<close> and \<^verbatim>\<open>$\<close>. A pattern is the
  list of its tokens; the non-capturing group \<^verbatim>\<open>(?:\w+)\<close> is the token of \<^verbatim>\<open>\w+\<close>.
  \<open>matchHere\<close> is the backtracking matcher anchored at one position: a quantifier first
  takes every character it can and gives characters back one at a time when the rest of
  the pattern fails. It returns the end of the match and the groups, each as the pair of
  its start and end offsets.
\<close>

datatype charClass = WordClass | DigitClass

datatype token =
    Chr char
  | OneOrMore charClass
  | GroupOpen string
  | GroupClose
  | InputStart
  | InputEnd

fun inClass :: "charClass \<Rightarrow> char \<Rightarrow> bool" where
  "inClass WordClass c = isWordChar c"
| "inClass DigitClass c = isDigit c"

type_synonym captures = "(string \<times> nat \<times> nat) list"

fun matchHere ::
  "token list \<Rightarrow> string \<Rightarrow> nat \<Rightarrow> (string \<times> nat) list \<Rightarrow> captures \<Rightarrow> (nat \<times> captures) option"
where
  "matchHere [] inp pos opn caps = Some (pos, caps)"
| "matchHere (Chr c # ts) [] pos opn caps = None"
| "matchHere (Chr c # ts) (x # xs) pos opn caps =
     (if x = c then matchHere ts xs (Suc pos) opn caps else None)"
| "matchHere (OneOrMore k # ts) [] pos opn caps = None"
| "matchHere (OneOrMore k # ts) (x # xs) pos opn caps =
     (if inClass k x
      then (case matchHere (OneOrMore k # ts) xs (Suc pos) opn caps of
              Some r \<Rightarrow> Some r
            | None \<Rightarrow> matchHere ts xs (Suc pos) opn caps)
      else None)"
| "matchHere (GroupOpen n # ts) inp pos opn caps = matchHere ts inp pos ((n, pos) # opn) caps"
| "matchHere (GroupClose # ts) inp pos [] caps = matchHere ts inp pos [] caps"
| "matchHere (GroupClose # ts) inp pos ((n, s) # opn) caps =
     matchHere ts inp pos opn ((n, s, pos) # caps)"
| "matchHere (InputStart # ts) inp pos opn caps =
     (if pos = 0 then matchHere ts inp pos opn caps else None)"
| "matchHere (InputEnd # ts) inp pos opn caps =
     (if inp = [] then matchHere ts inp pos opn caps else None)"

text \<open>
  The result of \<^verbatim>\<open>String.prototype.match\<close> with a regular expression that has no
  \<^verbatim>\<open>g\<close> flag: the leftmost match, with its index, its text and its named groups.
\<close>

record regexMatch =
  matchIndex :: nat
  matchText :: string
  matchGroups :: "(string \<times> string) list"

fun searchFrom :: "token list \<Rightarrow> string \<Rightarrow> nat \<Rightarrow> (nat \<times> nat \<times> captures) option" where
  "searchFrom ts [] pos =
     (case matchHere ts [] pos [] [] of
        Some (e, caps) \<Rightarrow> Some (pos, e, caps)
      | None \<Rightarrow> None)"
| "searchFrom ts (x # xs) pos =
     (case matchHere ts (x # xs) pos [] [] of
        Some (e, caps) \<Rightarrow> Some (pos, e, caps)
      | None \<Rightarrow> searchFrom ts xs (Suc pos))"

definition substring :: "string \<Rightarrow> nat \<Rightarrow> nat \<Rightarrow> string" where
  "substring s a b = take (b - a) (drop a s)"

definition stringMatch :: "string \<Rightarrow> token list \<Rightarrow> regexMatch option" where
  "stringMatch s ts =
     (case searchFrom ts s 0 of
        None \<Rightarrow> None
      | Some (i, e, caps) \<Rightarrow>
          Some \<lparr>matchIndex = i, matchText = substring s i e,
                matchGroups = map (\<lambda>(n, a, b). (n, substring s a b)) caps\<rparr>)"

definition literal :: "string \<Rightarrow> token list" where
  "literal s = map Chr s"

section \<open>The collaborators\<close>

text \<open>
  Everything the module asks of the host and of its sibling modules, one field for each
  call: \<^verbatim>\<open>path.extname\<close>, \<^verbatim>\<open>embeddedLanguageDocsManager.getOriginalUri\<close>,
  \<^verbatim>\<open>vscode.workspace.textDocuments\<close>,
  \<^verbatim>\<open>embeddedLanguageDocsManager.getEmbeddedLanguageDocInfos\<close>,
  \<^verbatim>\<open>vscode.workspace.openTextDocument\<close>, \<^verbatim>\<open>vscode.languages.getDiagnostics\<close> with
  and without a uri, \<^verbatim>\<open>getOriginalDocRange\<close>,
  \<^verbatim>\<open>requestsManager.getEmbeddedLanguageTypeOnPosition\<close>,
  \<^verbatim>\<open>requestsManager.getDefinition\<close> and the set \<^verbatim>\<open>commonDirectoriesVariables\<close>.
  A field of a promise-returning call holds the value the promise resolves to; a
  rejection aborts updateDiagnostics before its only write and is not modelled.

  The tasks that \<^verbatim>\<open>Promise.all\<close> starts for the diagnostics of one document push
  their results in the order in which they finish, which depends on when the awaited
  answers arrive and not on the source. \<open>completionOrder\<close> gives that order for the call
  on a uri, as the list of the indexes of the tasks.
\<close>

record 'a env =
  pathExtname :: "string \<Rightarrow> string"
  getOriginalUri :: "uri \<Rightarrow> uri option"
  textDocuments :: "textDocument list"
  getEmbeddedLanguageDocInfos :: "uri \<Rightarrow> EmbeddedLanguageType \<Rightarrow> embeddedLanguageDocInfos option"
  openTextDocument :: "string \<Rightarrow> textDocument"
  getDiagnostics :: "uri \<Rightarrow> 'a diagnostic_scheme list"
  getAllDiagnostics :: "(uri \<times> 'a diagnostic_scheme list) list"
  getOriginalDocRange :: "textDocument \<Rightarrow> textDocument \<Rightarrow> nat list \<Rightarrow> range \<Rightarrow> range option"
  getEmbeddedLanguageTypeOnPosition :: "string \<Rightarrow> position \<Rightarrow> EmbeddedLanguageType option"
  getDefinition :: "textDocument \<Rightarrow> position \<Rightarrow> location list"
  commonDirectoriesVariables :: "string set"
  completionOrder :: "uri \<Rightarrow> nat list"

section \<open>The filters\<close>

definition supportedSources :: "string list" where
  "supportedSources = [''Flake8'', ''Pylance'', ''Pylint'', ''shellcheck'']"

definition sourceIncludes :: "'a diagnostic_scheme \<Rightarrow> string \<Rightarrow> bool" where
  "sourceIncludes d s = (case source d of None \<Rightarrow> False | Some src \<Rightarrow> stringIncludes src s)"

definition checkHasSupportedSource :: "'a diagnostic_scheme \<Rightarrow> bool" where
  "checkHasSupportedSource d = list_ex (\<lambda>supportedSource. sourceIncludes d supportedSource) supportedSources"

definition hasSourceWithCode :: "'a diagnostic_scheme \<Rightarrow> string \<Rightarrow> string \<Rightarrow> bool" where
  "hasSourceWithCode d src c =
     (if \<not> sourceIncludes d src then False
      else (case code d of
              Some (CodeString s) \<Rightarrow> s = c
            | Some (CodeObject (StringValue s) target) \<Rightarrow> s = c
            | _ \<Rightarrow> False))"

definition checkIsAlwaysIgnoredDiagnostic :: "'a diagnostic_scheme \<Rightarrow> bool" where
  "checkIsAlwaysIgnoredDiagnostic d =
     (hasSourceWithCode d ''Flake8'' ''W391'' \<or>
      hasSourceWithCode d ''Pylint'' ''C0114:missing-module-docstring'' \<or>
      hasSourceWithCode d ''Pylint'' ''C0116:missing-function-docstring'' \<or>
      hasSourceWithCode d ''Pylint'' ''C0305:trailing-newlines'' \<or>
      hasSourceWithCode d ''Pylint'' ''C0415:import-outside-toplevel'' \<or>
      hasSourceWithCode d ''Flake8'' ''E501'' \<or>
      hasSourceWithCode d ''Pylint'' ''W0104:pointless-statement'' \<or>
      hasSourceWithCode d ''Pylint'' ''W0106:expression-not-assigned'' \<or>
      hasSourceWithCode d ''Flake8'' ''E203'' \<or>
      hasSourceWithCode d ''Flake8'' ''E211'' \<or>
      hasSourceWithCode d ''Flake8'' ''E302'' \<or>
      hasSourceWithCode d ''Flake8'' ''E303'')"

definition anonymousNotAccessed :: string where
  \<open>anonymousNotAccessed = ''"__anonymous" is not accessed''\<close>

definition checkIsIgnoredDiagnosticOnAnonymousFunctionFirstLine :: "'a diagnostic_scheme \<Rightarrow> bool" where
  "checkIsIgnoredDiagnosticOnAnonymousFunctionFirstLine d =
     (sourceIncludes d ''Pylance'' \<and>
      hasDiagnosticCode d = Some False \<and>
      message d = anonymousNotAccessed)"

definition checkIsIgnoredDiagnosticOnPythonUndefinedVariable ::
  "('a, 'b) env_scheme \<Rightarrow> 'a diagnostic_scheme \<Rightarrow> textDocument \<Rightarrow> range \<Rightarrow> bool" where
  "checkIsIgnoredDiagnosticOnPythonUndefinedVariable e d originalTextDocument adjustedRange =
     (if \<not> hasSourceWithCode d ''Flake8'' ''F821'' \<and>
         \<not> hasSourceWithCode d ''Pylance'' ''reportUndefinedVariable'' \<and>
         \<not> hasSourceWithCode d ''Pylint'' ''E0602:undefined-variable''
      then False
      else (let definition = getDefinition e originalTextDocument
                  \<lparr>line = line (rstart adjustedRange),
                   character = character (rstart adjustedRange) + 1\<rparr>
            in length definition > 0))"

text \<open>The pattern \<^verbatim>\<open>/\w+/\<close> and the position that checkIsIgnoredShellcheckSc2154 asks about.\<close>

definition wordRegex :: "token list" where
  "wordRegex = [OneOrMore WordClass]"

definition sc2154Position :: "textDocument \<Rightarrow> range \<Rightarrow> position" where
  "sc2154Position originalTextDocument adjustedRange =
     (let textOnRange = getText originalTextDocument adjustedRange in
      case stringMatch textOnRange wordRegex of
        None \<Rightarrow> rend adjustedRange
      | Some m \<Rightarrow>
          if matchIndex m = 0 then rend adjustedRange
          else (let actualVariable = matchText m;
                    actualEndOfVariable =
                      character (rstart adjustedRange) + matchIndex m + length actualVariable
                in \<lparr>line = line (rend adjustedRange), character = actualEndOfVariable\<rparr>))"

text \<open>The pattern \<^verbatim>\<open>/^(?<variableName>\w+) is referenced but not assigned\.$/\<close>.\<close>

definition notAssignedRegex :: "token list" where
  "notAssignedRegex =
     [InputStart, GroupOpen ''variableName'', OneOrMore WordClass, GroupClose]
     @ literal '' is referenced but not assigned.'' @ [InputEnd]"

definition checkIsIgnoredShellcheckSc2154 ::
  "('a, 'b) env_scheme \<Rightarrow> 'a diagnostic_scheme \<Rightarrow> textDocument \<Rightarrow> range \<Rightarrow> bool" where
  "checkIsIgnoredShellcheckSc2154 e d originalTextDocument adjustedRange =
     (if \<not> hasSourceWithCode d ''shellcheck'' ''SC2154'' then False
      else (let position = sc2154Position originalTextDocument adjustedRange;
                definition = getDefinition e originalTextDocument position
            in if length definition > 0 then True
               else (case stringMatch (message d) notAssignedRegex of
                       None \<Rightarrow> False
                     | Some m \<Rightarrow>
                         (case map_of (matchGroups m) ''variableName'' of
                            None \<Rightarrow> False
                          | Some variableName \<Rightarrow> variableName \<in> commonDirectoriesVariables e))))"

definition checkIsIgnoredDiagnostic ::
  "('a, 'b) env_scheme \<Rightarrow> 'a diagnostic_scheme \<Rightarrow> textDocument \<Rightarrow> range \<Rightarrow> bool" where
  "checkIsIgnoredDiagnostic e d originalTextDocument adjustedRange =
     (if checkIsAlwaysIgnoredDiagnostic d then True
      else if checkIsIgnoredDiagnosticOnAnonymousFunctionFirstLine d then True
      else if checkIsIgnoredDiagnosticOnPythonUndefinedVariable e d originalTextDocument adjustedRange
        then True
      else if checkIsIgnoredShellcheckSc2154 e d originalTextDocument adjustedRange then True
      else False)"

section \<open>The import-warning fixer\<close>

text \<open>
  The three patterns of fixDiagnosticMessagePythonImport:
  \<^verbatim>\<open>/redefinition of unused '(?:\w+)'(?<textToRemove> from line (?<lineNumber>\d+))/\<close>,
  \<^verbatim>\<open>/Reimport '(?:\w+)'(?<textToRemove> \(imported line (?<lineNumber>\d+)\))/\<close> and
  \<^verbatim>\<open>/Redefining name '(?:\w+)'(?<textToRemove> from outer scope \(line (?<lineNumber>\d+)\))/\<close>.
\<close>

definition redefinitionRegex :: "token list" where
  "redefinitionRegex =
     literal ''redefinition of unused '' @
     [Chr (CHR 0x27), OneOrMore WordClass, Chr (CHR 0x27), GroupOpen ''textToRemove''] @
     literal '' from line '' @
     [GroupOpen ''lineNumber'', OneOrMore DigitClass, GroupClose, GroupClose]"

definition reimportRegex :: "token list" where
  "reimportRegex =
     literal ''Reimport '' @
     [Chr (CHR 0x27), OneOrMore WordClass, Chr (CHR 0x27), GroupOpen ''textToRemove''] @
     literal '' (imported line '' @
     [GroupOpen ''lineNumber'', OneOrMore DigitClass, GroupClose] @
     literal '')'' @ [GroupClose]"

definition redefiningRegex :: "token list" where
  "redefiningRegex =
     literal ''Redefining name '' @
     [Chr (CHR 0x27), OneOrMore WordClass, Chr (CHR 0x27), GroupOpen ''textToRemove''] @
     literal '' from outer scope (line '' @
     [GroupOpen ''lineNumber'', OneOrMore DigitClass, GroupClose] @
     literal '')'' @ [GroupClose]"

definition embeddedLanguageDocImportLine :: nat where
  "embeddedLanguageDocImportLine = 7"

definition newText :: string where
  "newText = '' (imported by BitBake)''"

text \<open>
  The inner function \<^verbatim>\<open>fix\<close>, here \<open>fixRegex\<close>. Without a match
  \<^verbatim>\<open>Number(undefined)\<close> is NaN and the comparison with 7 is false, so the message is
  returned as it is. The line number is compared as a natural number: the rounding of
  \<^verbatim>\<open>Number\<close> on long digit strings never crosses 7. The slice removes as many
  characters from the end of the message as the group \<^verbatim>\<open>textToRemove\<close> is long.
\<close>

definition fixRegex :: "'a diagnostic_scheme \<Rightarrow> token list \<Rightarrow> string" where
  "fixRegex d regex =
     (case stringMatch (message d) regex of
        None \<Rightarrow> message d
      | Some m \<Rightarrow>
          (case (map_of (matchGroups m) ''lineNumber'', map_of (matchGroups m) ''textToRemove'') of
             (Some lineNumber, Some textToRemove) \<Rightarrow>
               if Number lineNumber \<le> embeddedLanguageDocImportLine
               then take (length (message d) - length textToRemove) (message d) @ newText
               else message d
           | _ \<Rightarrow> message d))"

definition fixDiagnosticMessagePythonImport :: "'a diagnostic_scheme \<Rightarrow> string" where
  "fixDiagnosticMessagePythonImport d =
     (if hasSourceWithCode d ''Flake8'' ''F811'' then fixRegex d redefinitionRegex
      else if hasSourceWithCode d ''Pylint'' ''W0404:reimported'' then fixRegex d reimportRegex
      else if hasSourceWithCode d ''Pylint'' ''W0621:redefined-outer-name'' then fixRegex d redefiningRegex
      else message d)"

section \<open>updateDiagnostics and reviewDiagnostics\<close>

definition diagnosticCollectionName :: "EmbeddedLanguageType \<Rightarrow> string" where
  "diagnosticCollectionName t = (case t of Bash \<Rightarrow> ''bitbake-bash'' | Python \<Rightarrow> ''bitbake-python'')"

definition getEmbeddedLanguageType :: "('a, 'b) env_scheme \<Rightarrow> uri \<Rightarrow> EmbeddedLanguageType option" where
  "getEmbeddedLanguageType e u =
     (let fileExtension = pathExtname e (fsPath u) in
      if fileExtension = ''.py'' then Some Python
      else if fileExtension = ''.sh'' then Some Bash
      else None)"

text \<open>
  The object that the callback pushes: the spread of the raw diagnostic with three
  properties replaced. The spread copies the own properties of the object, which the
  record and its extension part stand for. An absent source would be printed as
  \<^verbatim>\<open>undefined\<close> by the template.
\<close>

definition adjustedDiagnostic ::
  "EmbeddedLanguageType \<Rightarrow> 'a diagnostic_scheme \<Rightarrow> range \<Rightarrow> 'a diagnostic_scheme" where
  "adjustedDiagnostic t d adjustedRange =
     d\<lparr>message := fixDiagnosticMessagePythonImport d,
       drange := adjustedRange,
       source := Some ((case source d of None \<Rightarrow> ''undefined'' | Some s \<Rightarrow> s)
                       @ '', '' @ diagnosticCollectionName t)\<rparr>"

text \<open>
  The callback that updateDiagnostics maps over the raw diagnostics: \<open>Some\<close> of the
  diagnostic it pushes, \<open>None\<close> when it returns before the push.
\<close>

definition cleanDiagnostic ::
  "('a, 'b) env_scheme \<Rightarrow> EmbeddedLanguageType \<Rightarrow> textDocument \<Rightarrow> textDocument \<Rightarrow>
   embeddedLanguageDocInfos \<Rightarrow> 'a diagnostic_scheme \<Rightarrow> 'a diagnostic_scheme option" where
  "cleanDiagnostic e t originalTextDocument embeddedLanguageDoc infos d =
     (if \<not> checkHasSupportedSource d then None
      else (case getOriginalDocRange e originalTextDocument embeddedLanguageDoc
                   (characterIndexes infos) (drange d) of
              None \<Rightarrow> None
            | Some adjustedRange \<Rightarrow>
                if Some t \<noteq> getEmbeddedLanguageTypeOnPosition e
                               (uriString (docUri originalTextDocument)) (rend adjustedRange)
                then None
                else if checkIsIgnoredDiagnostic e d originalTextDocument adjustedRange then None
                else Some (adjustedDiagnostic t d adjustedRange)))"

text \<open>The pushes of the tasks, in the order in which the tasks finish.\<close>

definition inCompletionOrder :: "nat list \<Rightarrow> 'c option list \<Rightarrow> 'c list" where
  "inCompletionOrder order tasks =
     concat (map (\<lambda>i. if i < length tasks
                       then (case tasks ! i of None \<Rightarrow> [] | Some p \<Rightarrow> [p])
                       else []) order)"

text \<open>
  One call \<^verbatim>\<open>diagnosticCollection.set(uri, diagnostics)\<close>: the collection, named by its
  embedded language, the uri and the array.
\<close>

record 'a setCall =
  collection :: EmbeddedLanguageType
  key :: uri
  diagnostics :: "'a diagnostic_scheme list"

text \<open>
  updateDiagnostics has one effect, the call of \<^verbatim>\<open>set\<close> in its last line. The model
  returns that call, and \<open>None\<close> when the function returns before it.
\<close>

definition updateDiagnostics :: "('a, 'b) env_scheme \<Rightarrow> uri \<Rightarrow> 'a setCall option" where
  "updateDiagnostics e u =
     (case getEmbeddedLanguageType e u of
        None \<Rightarrow> None
      | Some embeddedLanguageType \<Rightarrow>
     (case getOriginalUri e u of
        None \<Rightarrow> None
      | Some originalUri \<Rightarrow>
     (case find (\<lambda>textDocument. uriString (docUri textDocument) = uriString originalUri)
                (textDocuments e) of
        None \<Rightarrow> None
      | Some originalTextDocument \<Rightarrow>
     (case getEmbeddedLanguageDocInfos e (docUri originalTextDocument) embeddedLanguageType of
        None \<Rightarrow> None
      | Some infos \<Rightarrow>
          (let embeddedLanguageDoc = openTextDocument e (fsPath (infosUri infos));
               dirtyDiagnostics = getDiagnostics e (infosUri infos);
               cleanDiagnostics =
                 inCompletionOrder (completionOrder e u)
                   (map (cleanDiagnostic e embeddedLanguageType originalTextDocument
                           embeddedLanguageDoc infos) dirtyDiagnostics)
           in Some \<lparr>collection = embeddedLanguageType,
                     key = docUri originalTextDocument,
                     diagnostics = cleanDiagnostics\<rparr>)))))"

text \<open>
  The two collections \<^verbatim>\<open>bitbake-bash\<close> and \<^verbatim>\<open>bitbake-python\<close>, each a map from the
  string of a uri to the array last set for it.
\<close>

record 'a diagnosticCollections =
  bashCollection :: "string \<rightharpoonup> 'a diagnostic_scheme list"
  pythonCollection :: "string \<rightharpoonup> 'a diagnostic_scheme list"

definition diagnosticCollectionSet ::
  "'a setCall \<Rightarrow> 'a diagnosticCollections \<Rightarrow> 'a diagnosticCollections" where
  "diagnosticCollectionSet c st =
     (case collection c of
        Bash \<Rightarrow> st\<lparr>bashCollection := (bashCollection st)(uriString (key c) \<mapsto> diagnostics c)\<rparr>
      | Python \<Rightarrow> st\<lparr>pythonCollection := (pythonCollection st)(uriString (key c) \<mapsto> diagnostics c)\<rparr>)"

definition runUpdateDiagnostics ::
  "('a, 'b) env_scheme \<Rightarrow> uri \<Rightarrow> 'a diagnosticCollections \<Rightarrow> 'a diagnosticCollections" where
  "runUpdateDiagnostics e u st =
     (case updateDiagnostics e u of None \<Rightarrow> st | Some c \<Rightarrow> diagnosticCollectionSet c st)"

text \<open>
  reviewDiagnostics calls updateDiagnostics on the uri of every entry that
  \<^verbatim>\<open>vscode.languages.getDiagnostics()\<close> lists; the model returns the calls of \<^verbatim>\<open>set\<close>
  that result, in the order of the entries. The calls of updateDiagnostics run side by
  side, so the calls of \<^verbatim>\<open>set\<close> may come in another order; that shows only when two
  entries write the same uri of the same collection.
\<close>

definition reviewDiagnostics :: "('a, 'b) env_scheme \<Rightarrow> 'a setCall list" where
  "reviewDiagnostics e =
     List.map_filter (\<lambda>(u, ds). updateDiagnostics e u) (getAllDiagnostics e)"

definition runReviewDiagnostics ::
  "('a, 'b) env_scheme \<Rightarrow> 'a diagnosticCollections \<Rightarrow> 'a diagnosticCollections" where
  "runReviewDiagnostics e st = fold diagnosticCollectionSet (reviewDiagnostics e) st"

section \<open>Notions used in the statements\<close>

text \<open>A word: a non-empty string of characters of the class \<^verbatim>\<open>\w\<close>.\<close>

definition isWord :: "string \<Rightarrow> bool" where
  "isWord w = (w \<noteq> [] \<and> list_all isWordChar w)"

text \<open>
  \<open>embeddedDocumentOf e u t original infos\<close>: updateDiagnostics on \<open>u\<close> passes its four
  early returns, with the embedded language \<open>t\<close>, the open original document and the
  infos of the generated document.
\<close>

definition embeddedDocumentOf ::
  "('a, 'b) env_scheme \<Rightarrow> uri \<Rightarrow> EmbeddedLanguageType \<Rightarrow> textDocument \<Rightarrow>
   embeddedLanguageDocInfos \<Rightarrow> bool" where
  "embeddedDocumentOf e u t original infos =
     (getEmbeddedLanguageType e u = Some t \<and>
      (case getOriginalUri e u of
         None \<Rightarrow> False
       | Some originalUri \<Rightarrow>
           find (\<lambda>textDocument. uriString (docUri textDocument) = uriString originalUri)
                (textDocuments e) = Some original) \<and>
      getEmbeddedLanguageDocInfos e (docUri original) t = Some infos)"

text \<open>The fixed part of the message that checkIsIgnoredShellcheckSc2154 parses.\<close>

definition notAssignedSuffix :: string where
  "notAssignedSuffix = '' is referenced but not assigned.''"

section \<open>Example inputs\<close>

text \<open>
  A recipe that is open in the editor, with the two documents generated from it. The
  text on every range of the recipe is \<^verbatim>\<open>${FOO}\<close>, every range maps to itself, the
  extension of a path is its last three characters, and the tasks finish in the order of
  the array.
\<close>

definition recipeUri :: uri where
  "recipeUri = \<lparr>uriString = ''file:///w/recipe.bb'', fsPath = ''/w/recipe.bb''\<rparr>"

definition shUri :: uri where
  "shUri = \<lparr>uriString = ''file:///w/e/recipe.bb.sh'', fsPath = ''/w/e/recipe.bb.sh''\<rparr>"

definition pyUri :: uri where
  "pyUri = \<lparr>uriString = ''file:///w/e/recipe.bb.py'', fsPath = ''/w/e/recipe.bb.py''\<rparr>"

definition recipeDoc :: textDocument where
  "recipeDoc = \<lparr>docUri = recipeUri, getText = (\<lambda>r. ''${FOO}'')\<rparr>"

definition exampleRange :: range where
  "exampleRange = \<lparr>rstart = \<lparr>line = 4, character = 10\<rparr>, rend = \<lparr>line = 4, character = 16\<rparr>\<rparr>"

definition exampleEnv ::
  "EmbeddedLanguageType \<Rightarrow> diagnostic list \<Rightarrow> (position \<Rightarrow> location list) \<Rightarrow> string set \<Rightarrow>
   unit env" where
  "exampleEnv t ds defs common =
     \<lparr>pathExtname = (\<lambda>p. drop (length p - 3) p),
      getOriginalUri = (\<lambda>u. if u = shUri \<or> u = pyUri then Some recipeUri else None),
      textDocuments = [recipeDoc],
      getEmbeddedLanguageDocInfos =
        (\<lambda>u k. if u = recipeUri
               then Some \<lparr>infosUri = (case k of Bash \<Rightarrow> shUri | Python \<Rightarrow> pyUri),
                          characterIndexes = []\<rparr>
               else None),
      openTextDocument =
        (\<lambda>p. \<lparr>docUri = \<lparr>uriString = ''file://'' @ p, fsPath = p\<rparr>, getText = (\<lambda>r. [])\<rparr>),
      getDiagnostics = (\<lambda>u. ds),
      getAllDiagnostics = [],
      getOriginalDocRange = (\<lambda>original embedded indexes r. Some r),
      getEmbeddedLanguageTypeOnPosition = (\<lambda>s p. Some t),
      getDefinition = (\<lambda>doc p. defs p),
      commonDirectoriesVariables = common,
      completionOrder = (\<lambda>u. [0..<length ds])\<rparr>"

definition emptyCollections :: "unit diagnosticCollections" where
  "emptyCollections = \<lparr>bashCollection = Map.empty, pythonCollection = Map.empty\<rparr>"

definition shInfos :: embeddedLanguageDocInfos where
  "shInfos = \<lparr>infosUri = shUri, characterIndexes = []\<rparr>"

definition pyInfos :: embeddedLanguageDocInfos where
  "pyInfos = \<lparr>infosUri = pyUri, characterIndexes = []\<rparr>"

definition exampleLocation :: location where
  "exampleLocation = \<lparr>locationUri = recipeUri, locationRange = exampleRange\<rparr>"

definition definitionsAt :: "nat \<Rightarrow> position \<Rightarrow> location list" where
  "definitionsAt n p = (if character p = n then [exampleLocation] else [])"

definition noDefinitions :: "position \<Rightarrow> location list" where
  "noDefinitions p = []"

text \<open>
  Raw diagnostics as the linters report them: a shellcheck warning that no filter knows, the
  shellcheck warning SC2154 on a variable, a diagnostic of a spelling checker, the Pylance
  hint on the wrapper function \<^verbatim>\<open>__anonymous\<close>, a Pylint diagnostic with a code to choose,
  and the Flake8 warning F811 with a line number to choose.
\<close>

definition exampleDiagnostic :: "string option \<Rightarrow> diagnosticCode option \<Rightarrow> string \<Rightarrow> diagnostic" where
  "exampleDiagnostic src c msg =
     \<lparr>drange = exampleRange, message = msg, severity = Warning, source = src, code = c,
      relatedInfo = None, tags = None, hasDiagnosticCode = None\<rparr>"

definition unquotedDiagnostic :: diagnostic where
  "unquotedDiagnostic =
     exampleDiagnostic (Some ''shellcheck'') (Some (CodeString ''SC2086''))
       ''Double quote to prevent globbing and word splitting.''"

definition unassignedDiagnostic :: "string \<Rightarrow> diagnostic" where
  "unassignedDiagnostic name =
     exampleDiagnostic (Some ''shellcheck'') (Some (CodeString ''SC2154''))
       (name @ '' is referenced but not assigned.'')"

definition spellingDiagnostic :: diagnostic where
  "spellingDiagnostic = exampleDiagnostic (Some ''cSpell'') None ''Unknown word.''"

definition anonymousDiagnostic :: diagnostic where
  \<open>anonymousDiagnostic =
     \<lparr>drange = exampleRange, message = ''"__anonymous" is not accessed'', severity = Hint,
      source = Some ''Pylance'', code = None, relatedInfo = None, tags = Some [Unnecessary],
      hasDiagnosticCode = Some False\<rparr>\<close>

definition docstringDiagnostic :: "diagnosticCode \<Rightarrow> diagnostic" where
  "docstringDiagnostic c = exampleDiagnostic (Some ''Pylint'') (Some c) ''Missing module docstring''"

definition redefinitionDiagnostic :: "string \<Rightarrow> diagnostic" where
  "redefinitionDiagnostic n =
     exampleDiagnostic (Some ''Flake8'') (Some (CodeString ''F811''))
       (''redefinition of unused 'x' from line '' @ n)"

section \<open>Unfolding the definitions\<close>

lemmas rule_defs =
  checkHasSupportedSource_def supportedSources_def sourceIncludes_def hasSourceWithCode_def
  checkIsIgnoredDiagnostic_def checkIsAlwaysIgnoredDiagnostic_def
  checkIsIgnoredDiagnosticOnAnonymousFunctionFirstLine_def anonymousNotAccessed_def
  checkIsIgnoredDiagnosticOnPythonUndefinedVariable_def checkIsIgnoredShellcheckSc2154_def
  sc2154Position_def wordRegex_def notAssignedRegex_def

lemmas regex_defs =
  stringMatch_def substring_def literal_def isWordChar_def isDigit_def Number_def digitValue_def

lemmas fixer_defs =
  fixDiagnosticMessagePythonImport_def fixRegex_def redefinitionRegex_def reimportRegex_def
  redefiningRegex_def embeddedLanguageDocImportLine_def newText_def

lemmas example_defs =
  exampleEnv_def recipeUri_def shUri_def pyUri_def recipeDoc_def exampleRange_def
  exampleDiagnostic_def shInfos_def pyInfos_def emptyCollections_def exampleLocation_def
  unquotedDiagnostic_def unassignedDiagnostic_def definitionsAt_def noDefinitions_def
  spellingDiagnostic_def anonymousDiagnostic_def docstringDiagnostic_def
  redefinitionDiagnostic_def

lemmas pipeline_defs =
  updateDiagnostics_def getEmbeddedLanguageType_def cleanDiagnostic_def adjustedDiagnostic_def
  diagnosticCollectionName_def inCompletionOrder_def embeddedDocumentOf_def

lemmas eval_defs = example_defs pipeline_defs rule_defs regex_defs fixer_defs

section \<open>Strings and patterns\<close>

text \<open>
  What the string functions compute, and how the matcher behaves on a literal and on a
  quantifier: a match of \<^verbatim>\<open>\w+\<close> or \<^verbatim>\<open>\d+\<close> consumes a non-empty run of characters
  of the class, and the longest run is taken when the rest of the pattern accepts it.
\<close>

lemma startsWith_iff: "startsWith s sub \<longleftrightarrow> (\<exists>q. s = sub @ q)"
  by (induction s sub rule: startsWith.induct) auto

lemma stringIncludes_iff: "stringIncludes s sub \<longleftrightarrow> (\<exists>p q. s = p @ sub @ q)"
proof (induction s)
  case Nil
  then show ?case by auto
next
  case (Cons x xs)
  show ?case
  proof
    assume "stringIncludes (x # xs) sub"
    then consider "startsWith (x # xs) sub" | "stringIncludes xs sub" by auto
    then show "\<exists>p q. x # xs = p @ sub @ q"
    proof cases
      case 1
      then obtain q where "x # xs = sub @ q" by (auto simp: startsWith_iff)
      then have "x # xs = [] @ sub @ q" by simp
      then show ?thesis by blast
    next
      case 2
      then obtain p q where "xs = p @ sub @ q" using Cons.IH by blast
      then have "x # xs = (x # p) @ sub @ q" by simp
      then show ?thesis by blast
    qed
  next
    assume "\<exists>p q. x # xs = p @ sub @ q"
    then obtain p q where pq: "x # xs = p @ sub @ q" by blast
    show "stringIncludes (x # xs) sub"
    proof (cases p)
      case Nil
      then have "startsWith (x # xs) sub" using pq by (auto simp: startsWith_iff)
      then show ?thesis by simp
    next
      case (Cons y ys)
      then have "xs = ys @ sub @ q" using pq by simp
      then have "stringIncludes xs sub" using Cons.IH by blast
      then show ?thesis by simp
    qed
  qed
qed

lemma stringIncludes_append: "stringIncludes s sub \<Longrightarrow> stringIncludes (s @ t) sub"
  unfolding stringIncludes_iff by (metis append.assoc)

lemma matchHere_literal:
  "matchHere (literal l @ ts) (l @ rest) pos opn caps = matchHere ts rest (pos + length l) opn caps"
  by (induction l arbitrary: pos) (simp_all add: literal_def)

lemma matchHere_literal_Some:
  "matchHere (literal l @ ts) s pos opn caps = Some r \<Longrightarrow>
     \<exists>rest. s = l @ rest \<and> matchHere ts rest (pos + length l) opn caps = Some r"
proof (induction l arbitrary: s pos)
  case Nil
  then show ?case by (simp add: literal_def)
next
  case (Cons c cs)
  show ?case
  proof (cases s)
    case Nil
    with Cons.prems show ?thesis by (simp add: literal_def)
  next
    case (Cons x xs)
    with Cons.prems have xc: "x = c"
      and m: "matchHere (literal cs @ ts) xs (Suc pos) opn caps = Some r"
      by (simp_all add: literal_def split: if_splits)
    from Cons.IH [OF m] obtain rest where
      "xs = cs @ rest" "matchHere ts rest (Suc pos + length cs) opn caps = Some r" by blast
    with xc Cons show ?thesis by simp
  qed
qed

lemma matchHere_OneOrMore_Some:
  "matchHere (OneOrMore k # ts) s pos opn caps = Some r \<Longrightarrow>
     \<exists>w rest. s = w @ rest \<and> w \<noteq> [] \<and> list_all (inClass k) w \<and>
        matchHere ts rest (pos + length w) opn caps = Some r"
proof (induction s arbitrary: pos)
  case Nil
  then show ?case by simp
next
  case (Cons x xs)
  from Cons.prems have x: "inClass k x" by (simp split: if_splits)
  show ?case
  proof (cases "matchHere (OneOrMore k # ts) xs (Suc pos) opn caps")
    case None
    with Cons.prems x have "matchHere ts xs (Suc pos) opn caps = Some r" by simp
    then have "x # xs = [x] @ xs \<and> [x] \<noteq> [] \<and> list_all (inClass k) [x] \<and>
        matchHere ts xs (pos + length [x]) opn caps = Some r" using x by simp
    then show ?thesis by blast
  next
    case (Some r')
    with Cons.prems x have "r' = r" by simp
    with Some Cons.IH obtain w rest where
      "xs = w @ rest" "w \<noteq> []" "list_all (inClass k) w"
      "matchHere ts rest (Suc pos + length w) opn caps = Some r" by blast
    then have "x # xs = (x # w) @ rest \<and> x # w \<noteq> [] \<and> list_all (inClass k) (x # w) \<and>
        matchHere ts rest (pos + length (x # w)) opn caps = Some r" using x by simp
    then show ?thesis by blast
  qed
qed

lemma matchHere_OneOrMore_stop:
  "rest = [] \<or> \<not> inClass k (hd rest) \<Longrightarrow> matchHere (OneOrMore k # ts) rest pos opn caps = None"
  by (cases rest) auto

lemma matchHere_OneOrMore_greedy:
  assumes "w \<noteq> []" "list_all (inClass k) w" "rest = [] \<or> \<not> inClass k (hd rest)"
    and "matchHere ts rest (pos + length w) opn caps = Some r"
  shows "matchHere (OneOrMore k # ts) (w @ rest) pos opn caps = Some r"
  using assms
proof (induction w arbitrary: pos)
  case Nil
  then show ?case by simp
next
  case (Cons x w)
  show ?case
  proof (cases "w = []")
    case True
    then show ?thesis using Cons.prems by (simp add: matchHere_OneOrMore_stop)
  next
    case False
    then have "matchHere (OneOrMore k # ts) (w @ rest) (Suc pos) opn caps = Some r"
      using Cons by simp
    then show ?thesis using Cons.prems by simp
  qed
qed

lemma isWordChar_simps [simp]:
  "\<not> isWordChar (CHR ''$'')" "\<not> isWordChar (CHR ''{'')" "\<not> isWordChar (CHR ''}'')"
  "\<not> isWordChar (CHR '' '')"
  by (simp_all add: isWordChar_def)

lemma isWord_Cons: "isWord w \<Longrightarrow> \<exists>x w'. w = x # w' \<and> isWordChar x"
  by (cases w) (auto simp: isWord_def)

lemma isWord_class: "isWord w \<Longrightarrow> list_all (inClass WordClass) w"
  by (simp add: isWord_def list_all_iff)

lemma isWord_FOO: "isWord ''FOO''"
  by (simp add: isWord_def isWordChar_def)

lemma searchFrom_hit:
  "matchHere ts s pos [] [] = Some (e, caps) \<Longrightarrow> searchFrom ts s pos = Some (pos, e, caps)"
  by (cases s) simp_all

lemma wordRegex_braces:
  assumes "isWord v"
  shows "stringMatch (''${'' @ v @ ''}'') wordRegex =
           Some \<lparr>matchIndex = 2, matchText = v, matchGroups = []\<rparr>"
proof -
  have "matchHere [OneOrMore WordClass] (v @ ''}'') (Suc (Suc 0)) [] [] =
          Some (Suc (Suc 0) + length v, [])"
    by (rule matchHere_OneOrMore_greedy) (use assms in \<open>simp_all add: isWord_def isWord_class\<close>)
  then have "searchFrom [OneOrMore WordClass] (v @ ''}'') (Suc (Suc 0)) =
          Some (Suc (Suc 0), Suc (Suc 0) + length v, [])"
    by (rule searchFrom_hit)
  then have "searchFrom wordRegex (''${'' @ v @ ''}'') 0 = Some (2, 2 + length v, [])"
    by (simp add: wordRegex_def)
  then show ?thesis
    by (simp add: stringMatch_def substring_def)
qed

lemma sc2154Position_braces:
  assumes "isWord v" and "getText original r = ''${'' @ v @ ''}''"
  shows "sc2154Position original r =
           \<lparr>line = line (rend r), character = character (rstart r) + 2 + length v\<rparr>"
  using wordRegex_braces [OF assms(1)] assms(2)
  by (simp add: sc2154Position_def Let_def)

lemma searchFrom_InputStart_later: "searchFrom (InputStart # ts) s (Suc pos) = None"
  by (induction s arbitrary: pos) simp_all

lemma searchFrom_InputStart:
  "searchFrom (InputStart # ts) s 0 =
     (case matchHere ts s 0 [] [] of Some (e, caps) \<Rightarrow> Some (0, e, caps) | None \<Rightarrow> None)"
  by (cases s) (simp_all add: searchFrom_InputStart_later split: option.splits)

lemma notAssigned_matchHere:
  "matchHere ([GroupOpen ''variableName'', OneOrMore WordClass, GroupClose]
              @ literal notAssignedSuffix @ [InputEnd]) s 0 [] [] = Some r \<longleftrightarrow>
   (\<exists>w. isWord w \<and> s = w @ notAssignedSuffix \<and>
        r = (length s, [(''variableName'', 0, length w)]))"
proof
  assume "matchHere ([GroupOpen ''variableName'', OneOrMore WordClass, GroupClose]
              @ literal notAssignedSuffix @ [InputEnd]) s 0 [] [] = Some r"
  then have "matchHere (OneOrMore WordClass # GroupClose # literal notAssignedSuffix @ [InputEnd])
               s 0 [(''variableName'', 0)] [] = Some r"
    by simp
  from matchHere_OneOrMore_Some [OF this]
  obtain w rest where w: "s = w @ rest" "w \<noteq> []" "list_all (inClass WordClass) w"
    and m: "matchHere (GroupClose # literal notAssignedSuffix @ [InputEnd]) rest (0 + length w)
              [(''variableName'', 0)] [] = Some r"
    by blast
  from m have "matchHere (literal notAssignedSuffix @ [InputEnd]) rest (length w) []
                 [(''variableName'', 0, length w)] = Some r"
    by simp
  from matchHere_literal_Some [OF this]
  obtain rest' where rest: "rest = notAssignedSuffix @ rest'"
    and e: "matchHere [InputEnd] rest' (length w + length notAssignedSuffix) []
              [(''variableName'', 0, length w)] = Some r"
    by blast
  from e have "rest' = []" and "r = (length w + length notAssignedSuffix, [(''variableName'', 0, length w)])"
    by (auto split: if_splits)
  with w rest have "isWord w \<and> s = w @ notAssignedSuffix \<and>
        r = (length s, [(''variableName'', 0, length w)])"
    by (simp add: isWord_def list_all_iff)
  then show "\<exists>w. isWord w \<and> s = w @ notAssignedSuffix \<and>
        r = (length s, [(''variableName'', 0, length w)])" by blast
next
  assume "\<exists>w. isWord w \<and> s = w @ notAssignedSuffix \<and>
        r = (length s, [(''variableName'', 0, length w)])"
  then obtain w where w: "isWord w" and s: "s = w @ notAssignedSuffix"
    and r: "r = (length s, [(''variableName'', 0, length w)])" by blast
  have "matchHere (literal notAssignedSuffix @ [InputEnd]) (notAssignedSuffix @ []) (length w) []
          [(''variableName'', 0, length w)] = Some r"
    unfolding matchHere_literal by (simp add: r s)
  then have "matchHere (GroupClose # literal notAssignedSuffix @ [InputEnd]) notAssignedSuffix
          (0 + length w) [(''variableName'', 0)] [] = Some r"
    by simp
  then have "matchHere (OneOrMore WordClass # GroupClose # literal notAssignedSuffix @ [InputEnd])
          (w @ notAssignedSuffix) 0 [(''variableName'', 0)] [] = Some r"
    by (rule matchHere_OneOrMore_greedy [rotated 3])
       (use w in \<open>simp_all add: isWord_def isWord_class notAssignedSuffix_def\<close>)
  then show "matchHere ([GroupOpen ''variableName'', OneOrMore WordClass, GroupClose]
              @ literal notAssignedSuffix @ [InputEnd]) s 0 [] [] = Some r"
    by (simp add: s)
qed

lemma notAssignedRegex_variableName:
  "(\<exists>m. stringMatch s notAssignedRegex = Some m \<and>
        map_of (matchGroups m) ''variableName'' = Some w) \<longleftrightarrow>
   isWord w \<and> s = w @ notAssignedSuffix"
proof -
  have regex: "notAssignedRegex = InputStart # ([GroupOpen ''variableName'', OneOrMore WordClass, GroupClose]
              @ literal notAssignedSuffix @ [InputEnd])"
    by (simp add: notAssignedRegex_def notAssignedSuffix_def)
  show ?thesis
  proof
    assume "\<exists>m. stringMatch s notAssignedRegex = Some m \<and>
        map_of (matchGroups m) ''variableName'' = Some w"
    then obtain m where m: "stringMatch s notAssignedRegex = Some m"
      and g: "map_of (matchGroups m) ''variableName'' = Some w" by blast
    from m obtain i e caps where sf: "searchFrom notAssignedRegex s 0 = Some (i, e, caps)"
      and mg: "matchGroups m = map (\<lambda>(n, a, b). (n, substring s a b)) caps"
      by (auto simp: stringMatch_def split: option.splits)
    from sf have "matchHere ([GroupOpen ''variableName'', OneOrMore WordClass, GroupClose]
              @ literal notAssignedSuffix @ [InputEnd]) s 0 [] [] = Some (e, caps)"
      unfolding regex searchFrom_InputStart by (auto split: option.splits)
    then obtain w' where w': "isWord w'" "s = w' @ notAssignedSuffix"
      "caps = [(''variableName'', 0, length w')]"
      unfolding notAssigned_matchHere by blast
    with g mg have "w = w'" by (simp add: substring_def)
    with w' show "isWord w \<and> s = w @ notAssignedSuffix" by simp
  next
    assume a: "isWord w \<and> s = w @ notAssignedSuffix"
    then have "matchHere ([GroupOpen ''variableName'', OneOrMore WordClass, GroupClose]
              @ literal notAssignedSuffix @ [InputEnd]) s 0 [] [] =
                 Some (length s, [(''variableName'', 0, length w)])"
      unfolding notAssigned_matchHere by blast
    then have "searchFrom notAssignedRegex s 0 = Some (0, length s, [(''variableName'', 0, length w)])"
      unfolding regex searchFrom_InputStart by simp
    then have "stringMatch s notAssignedRegex =
        Some \<lparr>matchIndex = 0, matchText = s, matchGroups = [(''variableName'', w)]\<rparr>"
      using a by (simp add: stringMatch_def substring_def)
    then show "\<exists>m. stringMatch s notAssignedRegex = Some m \<and>
        map_of (matchGroups m) ''variableName'' = Some w" by simp
  qed
qed

section \<open>The pipeline\<close>

text \<open>
  The array that updateDiagnostics publishes holds the pushes of the tasks named by the
  completion order; a task pushes exactly when the raw diagnostic passes the four checks
  of the callback.
\<close>

lemma set_inCompletionOrder:
  "set (inCompletionOrder order tasks) =
     {p. \<exists>i. i \<in> set order \<and> i < length tasks \<and> tasks ! i = Some p}"
  by (auto simp: inCompletionOrder_def split: if_splits option.splits)

lemma mset_inCompletionOrder:
  assumes "mset order1 = mset order2"
  shows "mset (inCompletionOrder order1 tasks) = mset (inCompletionOrder order2 tasks)"
proof -
  have "mset (concat (map f xs)) = (\<Sum>x\<in>#mset xs. mset (f x))" for f :: "nat \<Rightarrow> 'a list" and xs
    by (induction xs) simp_all
  then show ?thesis using assms by (simp add: inCompletionOrder_def)
qed

lemma updateDiagnostics_Some:
  assumes "updateDiagnostics e u = Some c"
  shows "\<exists>original infos.
           embeddedDocumentOf e u (collection c) original infos \<and>
           key c = docUri original \<and>
           diagnostics c =
             inCompletionOrder (completionOrder e u)
               (map (cleanDiagnostic e (collection c) original
                       (openTextDocument e (fsPath (infosUri infos))) infos)
                    (getDiagnostics e (infosUri infos)))"
  using assms
  by (auto simp: updateDiagnostics_def embeddedDocumentOf_def Let_def split: option.splits)

lemma updateDiagnostics_embeddedDocumentOf:
  assumes "embeddedDocumentOf e u t original infos"
  shows "updateDiagnostics e u =
           Some \<lparr>collection = t, key = docUri original,
                 diagnostics =
                   inCompletionOrder (completionOrder e u)
                     (map (cleanDiagnostic e t original
                             (openTextDocument e (fsPath (infosUri infos))) infos)
                          (getDiagnostics e (infosUri infos)))\<rparr>"
  using assms
  by (auto simp: updateDiagnostics_def embeddedDocumentOf_def Let_def split: option.splits)

lemma cleanDiagnostic_Some:
  "cleanDiagnostic e t original embedded infos d = Some p \<longleftrightarrow>
     checkHasSupportedSource d \<and>
     (\<exists>r. getOriginalDocRange e original embedded (characterIndexes infos) (drange d) = Some r \<and>
          getEmbeddedLanguageTypeOnPosition e (uriString (docUri original)) (rend r) = Some t \<and>
          \<not> checkIsIgnoredDiagnostic e d original r \<and>
          p = adjustedDiagnostic t d r)"
  by (auto simp: cleanDiagnostic_def split: option.splits)

lemma published_from_task:
  assumes "updateDiagnostics e u = Some c" and "p \<in> set (diagnostics c)"
  shows "\<exists>original infos d.
           embeddedDocumentOf e u (collection c) original infos \<and>
           key c = docUri original \<and>
           d \<in> set (getDiagnostics e (infosUri infos)) \<and>
           cleanDiagnostic e (collection c) original
             (openTextDocument e (fsPath (infosUri infos))) infos d = Some p"
proof -
  from updateDiagnostics_Some [OF assms(1)] obtain original infos where
    ctx: "embeddedDocumentOf e u (collection c) original infos" "key c = docUri original"
    and ds: "diagnostics c =
             inCompletionOrder (completionOrder e u)
               (map (cleanDiagnostic e (collection c) original
                       (openTextDocument e (fsPath (infosUri infos))) infos)
                    (getDiagnostics e (infosUri infos)))"
    by blast
  from assms(2) ds obtain i where
    i: "i < length (getDiagnostics e (infosUri infos))"
    and pi: "cleanDiagnostic e (collection c) original
             (openTextDocument e (fsPath (infosUri infos))) infos
             (getDiagnostics e (infosUri infos) ! i) = Some p"
    by (auto simp: set_inCompletionOrder)
  from i have "getDiagnostics e (infosUri infos) ! i \<in> set (getDiagnostics e (infosUri infos))"
    by simp
  with ctx pi show ?thesis by blast
qed

lemma task_published:
  assumes "embeddedDocumentOf e u t original infos"
    and "i < length (getDiagnostics e (infosUri infos))"
    and "i \<in> set (completionOrder e u)"
    and "cleanDiagnostic e t original (openTextDocument e (fsPath (infosUri infos))) infos
           (getDiagnostics e (infosUri infos) ! i) = Some p"
  shows "\<exists>c. updateDiagnostics e u = Some c \<and> collection c = t \<and> key c = docUri original \<and>
             p \<in> set (diagnostics c)"
  using assms
  by (auto simp: updateDiagnostics_embeddedDocumentOf [OF assms(1)] set_inCompletionOrder)

lemma sourceIncludes_adjusted:
  "sourceIncludes d s \<Longrightarrow> sourceIncludes (adjustedDiagnostic t d r) s"
  by (auto simp: sourceIncludes_def adjustedDiagnostic_def stringIncludes_append
           split: option.splits)

lemma checkHasSupportedSource_iff:
  "checkHasSupportedSource d \<longleftrightarrow>
     sourceIncludes d ''Flake8'' \<or> sourceIncludes d ''Pylance'' \<or>
     sourceIncludes d ''Pylint'' \<or> sourceIncludes d ''shellcheck''"
  by (simp add: checkHasSupportedSource_def supportedSources_def)

lemma sc2154_ignores_order:
  "checkIsIgnoredShellcheckSc2154 (e\<lparr>completionOrder := f\<rparr>) d original r =
   checkIsIgnoredShellcheckSc2154 e d original r"
  by (simp add: checkIsIgnoredShellcheckSc2154_def split: option.splits)

lemma checkIsIgnoredDiagnostic_ignores_order:
  "checkIsIgnoredDiagnostic (e\<lparr>completionOrder := f\<rparr>) d original r =
   checkIsIgnoredDiagnostic e d original r"
  by (simp add: checkIsIgnoredDiagnostic_def sc2154_ignores_order
      checkIsIgnoredDiagnosticOnPythonUndefinedVariable_def)

lemma cleanDiagnostic_ignores_order:
  "cleanDiagnostic (e\<lparr>completionOrder := f\<rparr>) t original embedded infos =
   cleanDiagnostic e t original embedded infos"
  by (rule ext)
     (simp add: cleanDiagnostic_def checkIsIgnoredDiagnostic_ignores_order split: option.splits)

lemma sc2154_rule_iff:
  "checkIsIgnoredShellcheckSc2154 e d original r \<longleftrightarrow>
     hasSourceWithCode d ''shellcheck'' ''SC2154'' \<and>
     (getDefinition e original (sc2154Position original r) \<noteq> [] \<or>
      (\<exists>w. isWord w \<and> message d = w @ notAssignedSuffix \<and> w \<in> commonDirectoriesVariables e))"
proof -
  have "(case stringMatch (message d) notAssignedRegex of
           None \<Rightarrow> False
         | Some m \<Rightarrow> (case map_of (matchGroups m) ''variableName'' of
                        None \<Rightarrow> False
                      | Some variableName \<Rightarrow> variableName \<in> commonDirectoriesVariables e)) \<longleftrightarrow>
        (\<exists>w. (\<exists>m. stringMatch (message d) notAssignedRegex = Some m \<and>
                  map_of (matchGroups m) ''variableName'' = Some w) \<and>
             w \<in> commonDirectoriesVariables e)"
    by (auto split: option.splits)
  then show ?thesis
    by (auto simp: checkIsIgnoredShellcheckSc2154_def Let_def notAssignedRegex_variableName)
qed

lemma hasSourceWithCode_code:
  "hasSourceWithCode d s c \<Longrightarrow> hasSourceWithCode d s' c' \<Longrightarrow> c = c'"
  by (auto simp: hasSourceWithCode_def split: if_splits option.splits diagnosticCode.splits codeValue.splits)

section \<open>The claims\<close>

text \<open>
  C1. Every diagnostic that updateDiagnostics publishes, in the collection of the embedded
  language it resolved, is the adjusted form of a raw diagnostic of the generated document
  whose range getOriginalDocRange mapped, whose mapped end position has that same embedded
  language, and on which each of the four ignore rules returned false. A task whose raw
  diagnostic fails one of the three conditions pushes nothing.
\<close>

theorem published_only_if:
  "(\<forall>c p. updateDiagnostics e u = Some c \<and> p \<in> set (diagnostics c) \<longrightarrow>
      (\<exists>original infos d r.
         embeddedDocumentOf e u (collection c) original infos \<and>
         key c = docUri original \<and>
         d \<in> set (getDiagnostics e (infosUri infos)) \<and>
         getOriginalDocRange e original (openTextDocument e (fsPath (infosUri infos)))
           (characterIndexes infos) (drange d) = Some r \<and>
         getEmbeddedLanguageTypeOnPosition e (uriString (docUri original)) (rend r)
           = Some (collection c) \<and>
         \<not> checkIsAlwaysIgnoredDiagnostic d \<and>
         \<not> checkIsIgnoredDiagnosticOnAnonymousFunctionFirstLine d \<and>
         \<not> checkIsIgnoredDiagnosticOnPythonUndefinedVariable e d original r \<and>
         \<not> checkIsIgnoredShellcheckSc2154 e d original r \<and>
         p = adjustedDiagnostic (collection c) d r)) \<and>
   (\<forall>t original embedded infos d.
      (getOriginalDocRange e original embedded (characterIndexes infos) (drange d) = None \<or>
       (\<exists>r. getOriginalDocRange e original embedded (characterIndexes infos) (drange d) = Some r \<and>
            (getEmbeddedLanguageTypeOnPosition e (uriString (docUri original)) (rend r) \<noteq> Some t \<or>
             checkIsAlwaysIgnoredDiagnostic d \<or>
             checkIsIgnoredDiagnosticOnAnonymousFunctionFirstLine d \<or>
             checkIsIgnoredDiagnosticOnPythonUndefinedVariable e d original r \<or>
             checkIsIgnoredShellcheckSc2154 e d original r))) \<longrightarrow>
      cleanDiagnostic e t original embedded infos d = None)"
proof (intro conjI allI impI)
  fix c p
  assume a: "updateDiagnostics e u = Some c \<and> p \<in> set (diagnostics c)"
  then obtain original infos d where
    ctx: "embeddedDocumentOf e u (collection c) original infos" "key c = docUri original"
      "d \<in> set (getDiagnostics e (infosUri infos))"
    and cd: "cleanDiagnostic e (collection c) original
             (openTextDocument e (fsPath (infosUri infos))) infos d = Some p"
    using published_from_task by blast
  from cd obtain r where
    r: "getOriginalDocRange e original (openTextDocument e (fsPath (infosUri infos)))
           (characterIndexes infos) (drange d) = Some r"
      "getEmbeddedLanguageTypeOnPosition e (uriString (docUri original)) (rend r)
           = Some (collection c)"
      "\<not> checkIsIgnoredDiagnostic e d original r"
      "p = adjustedDiagnostic (collection c) d r"
    unfolding cleanDiagnostic_Some by blast
  from r(3) have rules:
    "\<not> checkIsAlwaysIgnoredDiagnostic d"
    "\<not> checkIsIgnoredDiagnosticOnAnonymousFunctionFirstLine d"
    "\<not> checkIsIgnoredDiagnosticOnPythonUndefinedVariable e d original r"
    "\<not> checkIsIgnoredShellcheckSc2154 e d original r"
    by (simp_all add: checkIsIgnoredDiagnostic_def split: if_splits)
  from ctx r rules
  show "\<exists>original infos d r.
         embeddedDocumentOf e u (collection c) original infos \<and>
         key c = docUri original \<and>
         d \<in> set (getDiagnostics e (infosUri infos)) \<and>
         getOriginalDocRange e original (openTextDocument e (fsPath (infosUri infos)))
           (characterIndexes infos) (drange d) = Some r \<and>
         getEmbeddedLanguageTypeOnPosition e (uriString (docUri original)) (rend r)
           = Some (collection c) \<and>
         \<not> checkIsAlwaysIgnoredDiagnostic d \<and>
         \<not> checkIsIgnoredDiagnosticOnAnonymousFunctionFirstLine d \<and>
         \<not> checkIsIgnoredDiagnosticOnPythonUndefinedVariable e d original r \<and>
         \<not> checkIsIgnoredShellcheckSc2154 e d original r \<and>
         p = adjustedDiagnostic (collection c) d r"
    by blast
next
  fix t original embedded and infos :: embeddedLanguageDocInfos and d
  assume "getOriginalDocRange e original embedded (characterIndexes infos) (drange d) = None \<or>
       (\<exists>r. getOriginalDocRange e original embedded (characterIndexes infos) (drange d) = Some r \<and>
            (getEmbeddedLanguageTypeOnPosition e (uriString (docUri original)) (rend r) \<noteq> Some t \<or>
             checkIsAlwaysIgnoredDiagnostic d \<or>
             checkIsIgnoredDiagnosticOnAnonymousFunctionFirstLine d \<or>
             checkIsIgnoredDiagnosticOnPythonUndefinedVariable e d original r \<or>
             checkIsIgnoredShellcheckSc2154 e d original r))"
  then show "cleanDiagnostic e t original embedded infos d = None"
    by (auto simp: cleanDiagnostic_def checkIsIgnoredDiagnostic_def)
qed

theorem published_only_if_witness:
  "updateDiagnostics
     (exampleEnv Bash [unquotedDiagnostic, unassignedDiagnostic ''FOO''] (definitionsAt 15) {}) shUri =
     Some \<lparr>collection = Bash, key = recipeUri,
           diagnostics = [adjustedDiagnostic Bash unquotedDiagnostic exampleRange]\<rparr> \<and>
   (\<exists>original infos d r.
      embeddedDocumentOf
        (exampleEnv Bash [unquotedDiagnostic, unassignedDiagnostic ''FOO''] (definitionsAt 15) {})
        shUri Bash original infos \<and>
      d \<in> set [unquotedDiagnostic, unassignedDiagnostic ''FOO''] \<and>
      \<not> checkIsIgnoredShellcheckSc2154
          (exampleEnv Bash [unquotedDiagnostic, unassignedDiagnostic ''FOO''] (definitionsAt 15) {})
          d original r \<and>
      adjustedDiagnostic Bash unquotedDiagnostic exampleRange = adjustedDiagnostic Bash d r) \<and>
   checkIsIgnoredShellcheckSc2154
     (exampleEnv Bash [unquotedDiagnostic, unassignedDiagnostic ''FOO''] (definitionsAt 15) {})
     (unassignedDiagnostic ''FOO'') recipeDoc exampleRange \<and>
   cleanDiagnostic
     (exampleEnv Bash [unquotedDiagnostic, unassignedDiagnostic ''FOO''] (definitionsAt 15) {})
     Bash recipeDoc (openTextDocument
       (exampleEnv Bash [unquotedDiagnostic, unassignedDiagnostic ''FOO''] (definitionsAt 15) {})
       (fsPath shUri)) shInfos (unassignedDiagnostic ''FOO'') = None"
proof -
  let ?e = "exampleEnv Bash [unquotedDiagnostic, unassignedDiagnostic ''FOO''] (definitionsAt 15) {}"
  let ?c = "\<lparr>collection = Bash, key = recipeUri,
           diagnostics = [adjustedDiagnostic Bash unquotedDiagnostic exampleRange]\<rparr>"
  have call: "updateDiagnostics ?e shUri = Some ?c"
    by (simp add: eval_defs)
  then have h1: "updateDiagnostics ?e shUri = Some ?c \<and>
      adjustedDiagnostic Bash unquotedDiagnostic exampleRange \<in> set (diagnostics ?c)"
    by simp
  have infos: "getDiagnostics ?e i = [unquotedDiagnostic, unassignedDiagnostic ''FOO'']" for i
    by (simp add: exampleEnv_def)
  have h2: "checkIsIgnoredShellcheckSc2154 ?e (unassignedDiagnostic ''FOO'') recipeDoc exampleRange"
    by (simp add: eval_defs)
  have range: "getOriginalDocRange ?e recipeDoc (openTextDocument ?e (fsPath shUri))
                 (characterIndexes shInfos) (drange (unassignedDiagnostic ''FOO'')) = Some exampleRange"
    by (simp add: example_defs)
  note inst = published_only_if [of ?e shUri]
  from inst [THEN conjunct1, rule_format, OF h1]
  have part1: "\<exists>original infos d r.
      embeddedDocumentOf ?e shUri Bash original infos \<and>
      d \<in> set [unquotedDiagnostic, unassignedDiagnostic ''FOO''] \<and>
      \<not> checkIsIgnoredShellcheckSc2154 ?e d original r \<and>
      adjustedDiagnostic Bash unquotedDiagnostic exampleRange = adjustedDiagnostic Bash d r"
    unfolding infos by (elim exE conjE) (simp, blast)
  from inst [THEN conjunct2, rule_format, of recipeDoc _ shInfos "unassignedDiagnostic ''FOO''" Bash]
    range h2
  have part2: "cleanDiagnostic ?e Bash recipeDoc (openTextDocument ?e (fsPath shUri)) shInfos
                 (unassignedDiagnostic ''FOO'') = None"
    by blast
  from call part1 h2 part2 show ?thesis by blast
qed

text \<open>
  C2, as the code has it. The anonymous-function rule reads the property
  \<^verbatim>\<open>hasDiagnosticCode\<close> and never the field \<^verbatim>\<open>code\<close>: a diagnostic whose source contains
  Pylance, whose \<^verbatim>\<open>hasDiagnosticCode\<close> is \<^verbatim>\<open>false\<close> and whose message is exactly
  \<^verbatim>\<open>"__anonymous" is not accessed\<close> is suppressed and not published, whatever its code;
  a diagnostic whose \<^verbatim>\<open>hasDiagnosticCode\<close> is absent or \<^verbatim>\<open>true\<close> is not suppressed by the
  rule, whatever its code.
\<close>

theorem anonymous_rule_reads_hasDiagnosticCode:
  \<open>(sourceIncludes d ''Pylance'' \<and> hasDiagnosticCode d = Some False \<and>
    message d = ''"__anonymous" is not accessed'' \<longrightarrow>
      checkIsIgnoredDiagnosticOnAnonymousFunctionFirstLine (d\<lparr>code := c\<rparr>) \<and>
      cleanDiagnostic e t original embedded infos (d\<lparr>code := c\<rparr>) = None) \<and>
   (hasDiagnosticCode d \<noteq> Some False \<longrightarrow>
      \<not> checkIsIgnoredDiagnosticOnAnonymousFunctionFirstLine (d\<lparr>code := c\<rparr>))\<close>
  by (simp add: checkIsIgnoredDiagnosticOnAnonymousFunctionFirstLine_def anonymousNotAccessed_def
      sourceIncludes_def cleanDiagnostic_def checkIsIgnoredDiagnostic_def split: option.splits)

theorem anonymous_rule_reads_hasDiagnosticCode_witness:
  \<open>sourceIncludes anonymousDiagnostic ''Pylance'' \<and>
   hasDiagnosticCode anonymousDiagnostic = Some False \<and>
   message anonymousDiagnostic = ''"__anonymous" is not accessed'' \<and>
   checkIsIgnoredDiagnosticOnAnonymousFunctionFirstLine
     (anonymousDiagnostic\<lparr>code := Some (CodeString ''reportUnusedVariable'')\<rparr>) \<and>
   cleanDiagnostic (exampleEnv Python [] noDefinitions {}) Python recipeDoc recipeDoc pyInfos
     (anonymousDiagnostic\<lparr>code := Some (CodeString ''reportUnusedVariable'')\<rparr>) = None \<and>
   hasDiagnosticCode (anonymousDiagnostic\<lparr>hasDiagnosticCode := Some True\<rparr>) \<noteq> Some False \<and>
   \<not> checkIsIgnoredDiagnosticOnAnonymousFunctionFirstLine
       (anonymousDiagnostic\<lparr>hasDiagnosticCode := Some True, code := None\<rparr>)\<close>
proof -
  have h1: \<open>sourceIncludes anonymousDiagnostic ''Pylance'' \<and>
    hasDiagnosticCode anonymousDiagnostic = Some False \<and>
    message anonymousDiagnostic = ''"__anonymous" is not accessed''\<close>
    by (simp add: sourceIncludes_def anonymousDiagnostic_def)
  have h2: "hasDiagnosticCode (anonymousDiagnostic\<lparr>hasDiagnosticCode := Some True\<rparr>) \<noteq> Some False"
    by simp
  from anonymous_rule_reads_hasDiagnosticCode
         [of anonymousDiagnostic "Some (CodeString ''reportUnusedVariable'')"
             "exampleEnv Python [] noDefinitions {}" Python recipeDoc recipeDoc pyInfos,
          THEN conjunct1, rule_format, OF h1]
       anonymous_rule_reads_hasDiagnosticCode
         [of "anonymousDiagnostic\<lparr>hasDiagnosticCode := Some True\<rparr>" None,
          THEN conjunct2, rule_format, OF h2]
       h1 h2
  show ?thesis by simp
qed

text \<open>
  The claim C2 as it is written fails in both halves. A Pylance diagnostic with the message
  and with no code, but without the property \<^verbatim>\<open>hasDiagnosticCode\<close>, is not matched by the
  rule and is published; the same diagnostic with a code and with \<^verbatim>\<open>hasDiagnosticCode\<close>
  \<^verbatim>\<open>false\<close> is matched and dropped.
\<close>

theorem anonymous_rule_counterexample:
  \<open>sourceIncludes (anonymousDiagnostic\<lparr>hasDiagnosticCode := None\<rparr>) ''Pylance'' \<and>
   code (anonymousDiagnostic\<lparr>hasDiagnosticCode := None\<rparr>) = None \<and>
   message (anonymousDiagnostic\<lparr>hasDiagnosticCode := None\<rparr>) = ''"__anonymous" is not accessed'' \<and>
   \<not> checkIsIgnoredDiagnosticOnAnonymousFunctionFirstLine
       (anonymousDiagnostic\<lparr>hasDiagnosticCode := None\<rparr>) \<and>
   updateDiagnostics
     (exampleEnv Python [anonymousDiagnostic\<lparr>hasDiagnosticCode := None\<rparr>] noDefinitions {}) pyUri =
     Some \<lparr>collection = Python, key = recipeUri,
           diagnostics = [anonymousDiagnostic
              \<lparr>source := Some ''Pylance, bitbake-python'', hasDiagnosticCode := None\<rparr>]\<rparr> \<and>
   sourceIncludes (anonymousDiagnostic\<lparr>code := Some (CodeString ''reportUnusedVariable'')\<rparr>) ''Pylance'' \<and>
   code (anonymousDiagnostic\<lparr>code := Some (CodeString ''reportUnusedVariable'')\<rparr>) =
     Some (CodeString ''reportUnusedVariable'') \<and>
   message (anonymousDiagnostic\<lparr>code := Some (CodeString ''reportUnusedVariable'')\<rparr>) =
     ''"__anonymous" is not accessed'' \<and>
   checkIsIgnoredDiagnosticOnAnonymousFunctionFirstLine
     (anonymousDiagnostic\<lparr>code := Some (CodeString ''reportUnusedVariable'')\<rparr>) \<and>
   updateDiagnostics
     (exampleEnv Python [anonymousDiagnostic\<lparr>code := Some (CodeString ''reportUnusedVariable'')\<rparr>]
        noDefinitions {}) pyUri =
     Some \<lparr>collection = Python, key = recipeUri, diagnostics = []\<rparr>\<close>
  by (simp add: eval_defs)

text \<open>
  C3, as the code has it. The Pylint entries of the always-ignored table are the full codes
  with their symbolic names. A diagnostic whose source contains the name of an entry and
  whose code, as a string or as the value of a structured code, equals the code of that
  entry is never published, for every message and every range.
\<close>

theorem always_ignored_never_published:
  assumes "(src, c) \<in> set [(''Flake8'', ''W391''),
             (''Pylint'', ''C0114:missing-module-docstring''),
             (''Pylint'', ''C0116:missing-function-docstring''),
             (''Pylint'', ''C0305:trailing-newlines''),
             (''Pylint'', ''C0415:import-outside-toplevel''),
             (''Flake8'', ''E501''),
             (''Pylint'', ''W0104:pointless-statement''),
             (''Pylint'', ''W0106:expression-not-assigned''),
             (''Flake8'', ''E203''), (''Flake8'', ''E211''),
             (''Flake8'', ''E302''), (''Flake8'', ''E303'')]"
    and "hasSourceWithCode d src c"
  shows "checkIsAlwaysIgnoredDiagnostic (d\<lparr>message := m, drange := r\<rparr>) \<and>
         cleanDiagnostic e t original embedded infos (d\<lparr>message := m, drange := r\<rparr>) = None"
proof -
  have same: "hasSourceWithCode (d\<lparr>message := m, drange := r\<rparr>) s k = hasSourceWithCode d s k"
    for s k
    by (simp add: hasSourceWithCode_def sourceIncludes_def)
  from assms have ai: "checkIsAlwaysIgnoredDiagnostic (d\<lparr>message := m, drange := r\<rparr>)"
    unfolding checkIsAlwaysIgnoredDiagnostic_def same by auto
  then have "checkIsIgnoredDiagnostic e (d\<lparr>message := m, drange := r\<rparr>) original r'" for r'
    by (simp add: checkIsIgnoredDiagnostic_def)
  then have "cleanDiagnostic e t original embedded infos (d\<lparr>message := m, drange := r\<rparr>) = None"
    by (simp add: cleanDiagnostic_def split: option.splits)
  with ai show ?thesis by simp
qed

theorem always_ignored_never_published_witness:
  "(''Pylint'', ''C0114:missing-module-docstring'') \<in> set [(''Flake8'', ''W391''),
             (''Pylint'', ''C0114:missing-module-docstring''),
             (''Pylint'', ''C0116:missing-function-docstring''),
             (''Pylint'', ''C0305:trailing-newlines''),
             (''Pylint'', ''C0415:import-outside-toplevel''),
             (''Flake8'', ''E501''),
             (''Pylint'', ''W0104:pointless-statement''),
             (''Pylint'', ''W0106:expression-not-assigned''),
             (''Flake8'', ''E203''), (''Flake8'', ''E211''),
             (''Flake8'', ''E302''), (''Flake8'', ''E303'')] \<and>
   hasSourceWithCode
     (docstringDiagnostic (CodeObject (StringValue ''C0114:missing-module-docstring'') recipeUri))
     ''Pylint'' ''C0114:missing-module-docstring'' \<and>
   checkIsAlwaysIgnoredDiagnostic
     ((docstringDiagnostic (CodeObject (StringValue ''C0114:missing-module-docstring'') recipeUri))
        \<lparr>message := ''any message'', drange := exampleRange\<rparr>) \<and>
   cleanDiagnostic (exampleEnv Python [] noDefinitions {}) Python recipeDoc recipeDoc pyInfos
     ((docstringDiagnostic (CodeObject (StringValue ''C0114:missing-module-docstring'') recipeUri))
        \<lparr>message := ''any message'', drange := exampleRange\<rparr>) = None"
proof -
  let ?tab = "[(''Flake8'', ''W391''),
             (''Pylint'', ''C0114:missing-module-docstring''),
             (''Pylint'', ''C0116:missing-function-docstring''),
             (''Pylint'', ''C0305:trailing-newlines''),
             (''Pylint'', ''C0415:import-outside-toplevel''),
             (''Flake8'', ''E501''),
             (''Pylint'', ''W0104:pointless-statement''),
             (''Pylint'', ''W0106:expression-not-assigned''),
             (''Flake8'', ''E203''), (''Flake8'', ''E211''),
             (''Flake8'', ''E302''), (''Flake8'', ''E303'')]"
  have h1: "(''Pylint'', ''C0114:missing-module-docstring'') \<in> set ?tab"
    by simp
  have h2: "hasSourceWithCode
     (docstringDiagnostic (CodeObject (StringValue ''C0114:missing-module-docstring'') recipeUri))
     ''Pylint'' ''C0114:missing-module-docstring''"
    by (simp add: hasSourceWithCode_def sourceIncludes_def example_defs)
  from always_ignored_never_published [OF h1 h2, where m = "''any message''"
         and r = exampleRange and e = "exampleEnv Python [] noDefinitions {}" and t = Python
         and original = recipeDoc and embedded = recipeDoc and infos = pyInfos] h1 h2
  show ?thesis by blast
qed

text \<open>
  The claim C3 as it is written lists (Pylint, C0114). A Pylint diagnostic whose code is
  \<^verbatim>\<open>C0114\<close> is not in the table of the code, and it is published.
\<close>

theorem always_ignored_short_code_counterexample:
  "hasSourceWithCode (docstringDiagnostic (CodeString ''C0114'')) ''Pylint'' ''C0114'' \<and>
   \<not> checkIsAlwaysIgnoredDiagnostic (docstringDiagnostic (CodeString ''C0114'')) \<and>
   updateDiagnostics
     (exampleEnv Python [docstringDiagnostic (CodeString ''C0114'')] noDefinitions {}) pyUri =
     Some \<lparr>collection = Python, key = recipeUri,
           diagnostics = [(docstringDiagnostic (CodeString ''C0114''))
                            \<lparr>source := Some ''Pylint, bitbake-python''\<rparr>]\<rparr>"
  by (simp add: eval_defs)

text \<open>
  C4. On a Flake8 F811 diagnostic with the message
  \<^verbatim>\<open>redefinition of unused 'x' from line 3\<close> the fixer returns
  \<^verbatim>\<open>redefinition of unused 'x' (imported by BitBake)\<close>; with \<^verbatim>\<open>from line 9\<close> it returns
  the message unchanged; and on every diagnostic whose message matches none of the three
  patterns it returns the message unchanged.
\<close>

theorem import_warning_fixer:
  "(hasSourceWithCode d ''Flake8'' ''F811'' \<and>
    message d = ''redefinition of unused 'x' from line 3'' \<longrightarrow>
      fixDiagnosticMessagePythonImport d = ''redefinition of unused 'x' (imported by BitBake)'') \<and>
   (hasSourceWithCode d ''Flake8'' ''F811'' \<and>
    message d = ''redefinition of unused 'x' from line 9'' \<longrightarrow>
      fixDiagnosticMessagePythonImport d = ''redefinition of unused 'x' from line 9'') \<and>
   (stringMatch (message d) redefinitionRegex = None \<and>
    stringMatch (message d) reimportRegex = None \<and>
    stringMatch (message d) redefiningRegex = None \<longrightarrow>
      fixDiagnosticMessagePythonImport d = message d)"
proof (intro conjI impI)
  assume "hasSourceWithCode d ''Flake8'' ''F811'' \<and>
    message d = ''redefinition of unused 'x' from line 3''"
  then show "fixDiagnosticMessagePythonImport d = ''redefinition of unused 'x' (imported by BitBake)''"
    by (simp add: fixer_defs regex_defs)
next
  assume "hasSourceWithCode d ''Flake8'' ''F811'' \<and>
    message d = ''redefinition of unused 'x' from line 9''"
  then show "fixDiagnosticMessagePythonImport d = ''redefinition of unused 'x' from line 9''"
    by (simp add: fixer_defs regex_defs)
next
  assume "stringMatch (message d) redefinitionRegex = None \<and>
    stringMatch (message d) reimportRegex = None \<and>
    stringMatch (message d) redefiningRegex = None"
  then show "fixDiagnosticMessagePythonImport d = message d"
    by (simp add: fixDiagnosticMessagePythonImport_def fixRegex_def)
qed

theorem import_warning_fixer_witness:
  "hasSourceWithCode (redefinitionDiagnostic ''3'') ''Flake8'' ''F811'' \<and>
   message (redefinitionDiagnostic ''3'') = ''redefinition of unused 'x' from line 3'' \<and>
   fixDiagnosticMessagePythonImport (redefinitionDiagnostic ''3'') =
     ''redefinition of unused 'x' (imported by BitBake)'' \<and>
   hasSourceWithCode (redefinitionDiagnostic ''9'') ''Flake8'' ''F811'' \<and>
   message (redefinitionDiagnostic ''9'') = ''redefinition of unused 'x' from line 9'' \<and>
   fixDiagnosticMessagePythonImport (redefinitionDiagnostic ''9'') =
     ''redefinition of unused 'x' from line 9'' \<and>
   stringMatch (message (docstringDiagnostic (CodeString ''W0404:reimported''))) redefinitionRegex = None \<and>
   stringMatch (message (docstringDiagnostic (CodeString ''W0404:reimported''))) reimportRegex = None \<and>
   stringMatch (message (docstringDiagnostic (CodeString ''W0404:reimported''))) redefiningRegex = None \<and>
   fixDiagnosticMessagePythonImport (docstringDiagnostic (CodeString ''W0404:reimported'')) =
     ''Missing module docstring''"
proof -
  have h3: "hasSourceWithCode (redefinitionDiagnostic ''3'') ''Flake8'' ''F811'' \<and>
    message (redefinitionDiagnostic ''3'') = ''redefinition of unused 'x' from line 3''"
    by (simp add: hasSourceWithCode_def sourceIncludes_def example_defs)
  have h9: "hasSourceWithCode (redefinitionDiagnostic ''9'') ''Flake8'' ''F811'' \<and>
    message (redefinitionDiagnostic ''9'') = ''redefinition of unused 'x' from line 9''"
    by (simp add: hasSourceWithCode_def sourceIncludes_def example_defs)
  have hn: "stringMatch (message (docstringDiagnostic (CodeString ''W0404:reimported''))) redefinitionRegex = None \<and>
    stringMatch (message (docstringDiagnostic (CodeString ''W0404:reimported''))) reimportRegex = None \<and>
    stringMatch (message (docstringDiagnostic (CodeString ''W0404:reimported''))) redefiningRegex = None"
    by (simp add: example_defs regex_defs fixer_defs)
  have msg: "message (docstringDiagnostic (CodeString ''W0404:reimported'')) = ''Missing module docstring''"
    by (simp add: example_defs)
  from import_warning_fixer [of "redefinitionDiagnostic ''3''", THEN conjunct1, rule_format, OF h3]
       import_warning_fixer [of "redefinitionDiagnostic ''9''", THEN conjunct2, THEN conjunct1,
          rule_format, OF h9]
       import_warning_fixer [of "docstringDiagnostic (CodeString ''W0404:reimported'')",
          THEN conjunct2, THEN conjunct2, rule_format, OF hn]
       h3 h9 hn msg
  show ?thesis by simp
qed

text \<open>
  C5, as the code has it. Take a diagnostic with source shellcheck and code SC2154 whose
  mapped range holds the text \<^verbatim>\<open>${FOO}\<close>, for any word in place of \<^verbatim>\<open>FOO\<close>. The rule
  asks for definitions at the end of the word: on the line of the end of the range, at
  the start character plus two plus the length of the word. If there is a definition,
  the diagnostic is suppressed. If the message is a word followed by
  \<^verbatim>\<open> is referenced but not assigned.\<close> and that word, read from the message and not from
  the text, is in the common-directories set, it is suppressed. If there is no definition
  and the message names no such word, the rule does not match; the task then pushes the
  diagnostic with the mapped range when the embedded language at the end of the mapped
  range is the one being processed and the anonymous-function rule does not match, and
  updateDiagnostics publishes it.
\<close>

theorem shellcheck_sc2154:
  assumes sc: "hasSourceWithCode d ''shellcheck'' ''SC2154''"
    and v: "isWord v"
    and onRange: "getText original r = ''${'' @ v @ ''}''"
    and mapped: "getOriginalDocRange e original embedded (characterIndexes infos) (drange d) = Some r"
  shows
   "(getDefinition e original
       \<lparr>line = line (rend r), character = character (rstart r) + 2 + length v\<rparr> \<noteq> [] \<longrightarrow>
       checkIsIgnoredShellcheckSc2154 e d original r \<and>
       cleanDiagnostic e t original embedded infos d = None) \<and>
    ((\<exists>w. isWord w \<and> message d = w @ '' is referenced but not assigned.'' \<and>
          w \<in> commonDirectoriesVariables e) \<longrightarrow>
       checkIsIgnoredShellcheckSc2154 e d original r \<and>
       cleanDiagnostic e t original embedded infos d = None) \<and>
    (getDefinition e original
       \<lparr>line = line (rend r), character = character (rstart r) + 2 + length v\<rparr> = [] \<and>
     \<not> (\<exists>w. isWord w \<and> message d = w @ '' is referenced but not assigned.'' \<and>
            w \<in> commonDirectoriesVariables e) \<longrightarrow>
       \<not> checkIsIgnoredShellcheckSc2154 e d original r \<and>
       (getEmbeddedLanguageTypeOnPosition e (uriString (docUri original)) (rend r) = Some t \<and>
        \<not> checkIsIgnoredDiagnosticOnAnonymousFunctionFirstLine d \<longrightarrow>
          cleanDiagnostic e t original embedded infos d = Some (adjustedDiagnostic t d r) \<and>
          drange (adjustedDiagnostic t d r) = r \<and>
          (\<forall>u i. embeddedDocumentOf e u t original infos \<and>
                 embedded = openTextDocument e (fsPath (infosUri infos)) \<and>
                 i < length (getDiagnostics e (infosUri infos)) \<and>
                 getDiagnostics e (infosUri infos) ! i = d \<and>
                 i \<in> set (completionOrder e u) \<longrightarrow>
             (\<exists>c. updateDiagnostics e u = Some c \<and> collection c = t \<and>
                  key c = docUri original \<and>
                  adjustedDiagnostic t d r \<in> set (diagnostics c)))))"
proof -
  let ?p = "\<lparr>line = line (rend r), character = character (rstart r) + 2 + length v\<rparr>"
  let ?named = "\<exists>w. isWord w \<and> message d = w @ '' is referenced but not assigned.'' \<and>
          w \<in> commonDirectoriesVariables e"
  have pos: "sc2154Position original r = ?p"
    by (rule sc2154Position_braces [OF v onRange])
  have rule: "checkIsIgnoredShellcheckSc2154 e d original r \<longleftrightarrow>
                getDefinition e original ?p \<noteq> [] \<or> ?named"
    using sc by (simp add: sc2154_rule_iff pos notAssignedSuffix_def)
  have supported: "checkHasSupportedSource d"
    using sc by (auto simp: checkHasSupportedSource_iff hasSourceWithCode_def split: if_splits)
  have suppressed: "cleanDiagnostic e t original embedded infos d = None"
    if "checkIsIgnoredShellcheckSc2154 e d original r"
    using that mapped by (simp add: cleanDiagnostic_def checkIsIgnoredDiagnostic_def)
  have others: "\<not> checkIsAlwaysIgnoredDiagnostic d"
    "\<not> checkIsIgnoredDiagnosticOnPythonUndefinedVariable e d original r"
    using hasSourceWithCode_code [OF sc]
    by (auto simp: checkIsAlwaysIgnoredDiagnostic_def
        checkIsIgnoredDiagnosticOnPythonUndefinedVariable_def)
  have kept: "cleanDiagnostic e t original embedded infos d = Some (adjustedDiagnostic t d r)"
    if "\<not> checkIsIgnoredShellcheckSc2154 e d original r"
      and "getEmbeddedLanguageTypeOnPosition e (uriString (docUri original)) (rend r) = Some t"
      and "\<not> checkIsIgnoredDiagnosticOnAnonymousFunctionFirstLine d"
    using that mapped supported others
    by (simp add: cleanDiagnostic_def checkIsIgnoredDiagnostic_def)
  have published: "\<exists>c. updateDiagnostics e u = Some c \<and> collection c = t \<and>
                  key c = docUri original \<and> adjustedDiagnostic t d r \<in> set (diagnostics c)"
    if "cleanDiagnostic e t original embedded infos d = Some (adjustedDiagnostic t d r)"
      and "embeddedDocumentOf e u t original infos \<and>
                 embedded = openTextDocument e (fsPath (infosUri infos)) \<and>
                 i < length (getDiagnostics e (infosUri infos)) \<and>
                 getDiagnostics e (infosUri infos) ! i = d \<and>
                 i \<in> set (completionOrder e u)" for u i
    using that task_published [of e u t original infos i "adjustedDiagnostic t d r"] by simp
  have range: "drange (adjustedDiagnostic t d r) = r"
    by (simp add: adjustedDiagnostic_def)
  show ?thesis
    using rule suppressed kept published range by blast
qed

theorem shellcheck_sc2154_witness:
  "hasSourceWithCode (unassignedDiagnostic ''FOO'') ''shellcheck'' ''SC2154'' \<and>
   isWord ''FOO'' \<and>
   getText recipeDoc exampleRange = ''${FOO}'' \<and>
   getDefinition (exampleEnv Bash [unassignedDiagnostic ''FOO''] (definitionsAt 15) {}) recipeDoc
     \<lparr>line = 4, character = 15\<rparr> \<noteq> [] \<and>
   cleanDiagnostic (exampleEnv Bash [unassignedDiagnostic ''FOO''] (definitionsAt 15) {})
     Bash recipeDoc recipeDoc shInfos (unassignedDiagnostic ''FOO'') = None \<and>
   ''FOO'' \<in> commonDirectoriesVariables
       (exampleEnv Bash [unassignedDiagnostic ''FOO''] noDefinitions {''FOO''}) \<and>
   cleanDiagnostic (exampleEnv Bash [unassignedDiagnostic ''FOO''] noDefinitions {''FOO''})
     Bash recipeDoc recipeDoc shInfos (unassignedDiagnostic ''FOO'') = None \<and>
   getDefinition (exampleEnv Bash [unassignedDiagnostic ''FOO''] noDefinitions {''BAR''}) recipeDoc
     \<lparr>line = 4, character = 15\<rparr> = [] \<and>
   ''FOO'' \<notin> commonDirectoriesVariables
       (exampleEnv Bash [unassignedDiagnostic ''FOO''] noDefinitions {''BAR''}) \<and>
   \<not> checkIsIgnoredShellcheckSc2154
       (exampleEnv Bash [unassignedDiagnostic ''FOO''] noDefinitions {''BAR''})
       (unassignedDiagnostic ''FOO'') recipeDoc exampleRange \<and>
   (\<exists>c. updateDiagnostics
          (exampleEnv Bash [unassignedDiagnostic ''FOO''] noDefinitions {''BAR''}) shUri = Some c \<and>
        collection c = Bash \<and> key c = docUri recipeDoc \<and>
        adjustedDiagnostic Bash (unassignedDiagnostic ''FOO'') exampleRange \<in> set (diagnostics c)) \<and>
   drange (adjustedDiagnostic Bash (unassignedDiagnostic ''FOO'') exampleRange) = exampleRange"
proof -
  let ?d = "unassignedDiagnostic ''FOO''"
  let ?eA = "exampleEnv Bash [?d] (definitionsAt 15) {}"
  let ?eB = "exampleEnv Bash [?d] noDefinitions {''FOO''}"
  let ?eC = "exampleEnv Bash [?d] noDefinitions {''BAR''}"
  have sc: "hasSourceWithCode ?d ''shellcheck'' ''SC2154''"
    by (simp add: hasSourceWithCode_def sourceIncludes_def example_defs)
  have onRange: "getText recipeDoc exampleRange = ''${'' @ ''FOO'' @ ''}''"
    by (simp add: recipeDoc_def)
  have mapped: "getOriginalDocRange (exampleEnv Bash [?d] defs common) recipeDoc embedded
                  (characterIndexes shInfos) (drange ?d) = Some exampleRange"
    for defs common embedded
    by (simp add: example_defs)
  have p: "\<lparr>line = line (rend exampleRange),
            character = character (rstart exampleRange) + 2 + length ''FOO''\<rparr> =
           \<lparr>line = 4, character = 15\<rparr>"
    by (simp add: exampleRange_def)
  have hA: "getDefinition ?eA recipeDoc \<lparr>line = 4, character = 15\<rparr> \<noteq> []"
    by (simp add: example_defs)
  have hB: "\<exists>w. isWord w \<and> message ?d = w @ '' is referenced but not assigned.'' \<and>
              w \<in> commonDirectoriesVariables ?eB"
    using isWord_FOO by (simp add: example_defs)
  have hB': "''FOO'' \<in> commonDirectoriesVariables ?eB"
    by (simp add: exampleEnv_def)
  have hC: "getDefinition ?eC recipeDoc \<lparr>line = 4, character = 15\<rparr> = [] \<and>
            \<not> (\<exists>w. isWord w \<and> message ?d = w @ '' is referenced but not assigned.'' \<and>
                   w \<in> commonDirectoriesVariables ?eC)"
    by (simp add: example_defs)
  have hC': "''FOO'' \<notin> commonDirectoriesVariables ?eC"
    by (simp add: exampleEnv_def)
  have kind: "getEmbeddedLanguageTypeOnPosition ?eC (uriString (docUri recipeDoc)) (rend exampleRange)
                = Some Bash \<and>
              \<not> checkIsIgnoredDiagnosticOnAnonymousFunctionFirstLine ?d"
    by (simp add: example_defs rule_defs)
  have task: "embeddedDocumentOf ?eC shUri Bash recipeDoc shInfos \<and>
              openTextDocument ?eC (fsPath (infosUri shInfos)) =
                openTextDocument ?eC (fsPath (infosUri shInfos)) \<and>
              0 < length (getDiagnostics ?eC (infosUri shInfos)) \<and>
              getDiagnostics ?eC (infosUri shInfos) ! 0 = ?d \<and>
              0 \<in> set (completionOrder ?eC shUri)"
    by (simp add: example_defs embeddedDocumentOf_def getEmbeddedLanguageType_def)
  note a = shellcheck_sc2154 [OF sc isWord_FOO onRange mapped [of "definitionsAt 15" "{}" recipeDoc],
             of Bash, unfolded p, THEN conjunct1, rule_format, OF hA]
  note b = shellcheck_sc2154 [OF sc isWord_FOO onRange mapped [of noDefinitions "{''FOO''}" recipeDoc],
             of Bash, unfolded p, THEN conjunct2, THEN conjunct1, rule_format, OF hB]
  note c = shellcheck_sc2154 [OF sc isWord_FOO onRange
             mapped [of noDefinitions "{''BAR''}" "openTextDocument ?eC (fsPath (infosUri shInfos))"],
             of Bash, unfolded p, THEN conjunct2, THEN conjunct2, rule_format, OF hC]
  note c1 = c [THEN conjunct1]
  note c2 = c [THEN conjunct2, rule_format, OF kind]
  note c3 = c2 [THEN conjunct2, THEN conjunct2, rule_format, OF task]
  from sc isWord_FOO onRange hA a hB' b hC hC' c1 c2 c3
  show ?thesis by simp
qed

text \<open>
  The claim C5 as it is written takes the name from the text. Over \<^verbatim>\<open>${FOO}\<close>, with no
  definition, with \<^verbatim>\<open>FOO\<close> outside the common-directories set and a message that names
  \<^verbatim>\<open>BAR\<close>, a member of the set, neither condition of the claim holds, and the diagnostic is
  suppressed all the same.
\<close>

theorem shellcheck_sc2154_message_name_counterexample:
  "hasSourceWithCode (unassignedDiagnostic ''BAR'') ''shellcheck'' ''SC2154'' \<and>
   getDiagnostics (exampleEnv Bash [unassignedDiagnostic ''BAR''] noDefinitions {''BAR''}) shUri =
     [unassignedDiagnostic ''BAR''] \<and>
   getOriginalDocRange (exampleEnv Bash [unassignedDiagnostic ''BAR''] noDefinitions {''BAR''})
     recipeDoc
     (openTextDocument (exampleEnv Bash [unassignedDiagnostic ''BAR''] noDefinitions {''BAR''})
        (fsPath shUri))
     [] (drange (unassignedDiagnostic ''BAR'')) = Some exampleRange \<and>
   getText recipeDoc exampleRange = ''${FOO}'' \<and>
   sc2154Position recipeDoc exampleRange = \<lparr>line = 4, character = 15\<rparr> \<and>
   getDefinition (exampleEnv Bash [unassignedDiagnostic ''BAR''] noDefinitions {''BAR''}) recipeDoc
     \<lparr>line = 4, character = 15\<rparr> = [] \<and>
   message (unassignedDiagnostic ''BAR'') \<noteq> ''FOO is referenced but not assigned.'' \<and>
   ''FOO'' \<notin> commonDirectoriesVariables
       (exampleEnv Bash [unassignedDiagnostic ''BAR''] noDefinitions {''BAR''}) \<and>
   checkIsIgnoredShellcheckSc2154
     (exampleEnv Bash [unassignedDiagnostic ''BAR''] noDefinitions {''BAR''})
     (unassignedDiagnostic ''BAR'') recipeDoc exampleRange \<and>
   updateDiagnostics
     (exampleEnv Bash [unassignedDiagnostic ''BAR''] noDefinitions {''BAR''}) shUri =
     Some \<lparr>collection = Bash, key = recipeUri, diagnostics = []\<rparr>"
  by (simp add: eval_defs)

text \<open>
  C6. A diagnostic whose source contains none of Flake8, Pylance, Pylint and shellcheck, also
  one with no source, is never published: its task pushes nothing, and it is no element of
  an array that updateDiagnostics sets.
\<close>

theorem unsupported_source_never_published:
  assumes "\<not> sourceIncludes d ''Flake8''" and "\<not> sourceIncludes d ''Pylance''"
    and "\<not> sourceIncludes d ''Pylint''" and "\<not> sourceIncludes d ''shellcheck''"
  shows "cleanDiagnostic e t original embedded infos d = None \<and>
         (\<forall>c. updateDiagnostics e u = Some c \<longrightarrow> d \<notin> set (diagnostics c))"
proof
  from assms have "\<not> checkHasSupportedSource d" by (simp add: checkHasSupportedSource_iff)
  then show "cleanDiagnostic e t original embedded infos d = None"
    by (simp add: cleanDiagnostic_def)
next
  show "\<forall>c. updateDiagnostics e u = Some c \<longrightarrow> d \<notin> set (diagnostics c)"
  proof (intro allI impI notI)
    fix c
    assume "updateDiagnostics e u = Some c" and "d \<in> set (diagnostics c)"
    then obtain original infos d' where
      "cleanDiagnostic e (collection c) original
         (openTextDocument e (fsPath (infosUri infos))) infos d' = Some d"
      using published_from_task by blast
    then obtain r where "checkHasSupportedSource d'" and "d = adjustedDiagnostic (collection c) d' r"
      unfolding cleanDiagnostic_Some by blast
    then have "sourceIncludes d ''Flake8'' \<or> sourceIncludes d ''Pylance'' \<or>
               sourceIncludes d ''Pylint'' \<or> sourceIncludes d ''shellcheck''"
      using sourceIncludes_adjusted by (auto simp: checkHasSupportedSource_iff)
    with assms show False by blast
  qed
qed

theorem unsupported_source_never_published_witness:
  "\<not> sourceIncludes spellingDiagnostic ''Flake8'' \<and>
   \<not> sourceIncludes spellingDiagnostic ''Pylance'' \<and>
   \<not> sourceIncludes spellingDiagnostic ''Pylint'' \<and>
   \<not> sourceIncludes spellingDiagnostic ''shellcheck'' \<and>
   cleanDiagnostic (exampleEnv Bash [spellingDiagnostic, unquotedDiagnostic] noDefinitions {})
     Bash recipeDoc recipeDoc shInfos spellingDiagnostic = None \<and>
   updateDiagnostics (exampleEnv Bash [spellingDiagnostic, unquotedDiagnostic] noDefinitions {}) shUri =
     Some \<lparr>collection = Bash, key = recipeUri,
           diagnostics = [adjustedDiagnostic Bash unquotedDiagnostic exampleRange]\<rparr> \<and>
   spellingDiagnostic \<notin> set [adjustedDiagnostic Bash unquotedDiagnostic exampleRange]"
proof -
  let ?e = "exampleEnv Bash [spellingDiagnostic, unquotedDiagnostic] noDefinitions {}"
  have h: "\<not> sourceIncludes spellingDiagnostic ''Flake8''"
    "\<not> sourceIncludes spellingDiagnostic ''Pylance''"
    "\<not> sourceIncludes spellingDiagnostic ''Pylint''"
    "\<not> sourceIncludes spellingDiagnostic ''shellcheck''"
    by (simp_all add: sourceIncludes_def example_defs)
  have call: "updateDiagnostics ?e shUri =
     Some \<lparr>collection = Bash, key = recipeUri,
           diagnostics = [adjustedDiagnostic Bash unquotedDiagnostic exampleRange]\<rparr>"
    by (simp add: eval_defs)
  from unsupported_source_never_published [OF h, of ?e Bash recipeDoc recipeDoc shInfos shUri] call h
  show ?thesis by simp
qed

text \<open>
  C7. On a uri whose file extension is neither \<^verbatim>\<open>.py\<close> nor \<^verbatim>\<open>.sh\<close>, updateDiagnostics
  makes no call of \<^verbatim>\<open>set\<close> on either collection, and both collections stay as they were.
\<close>

theorem updateDiagnostics_other_extension:
  assumes "pathExtname e (fsPath u) \<noteq> ''.py''" and "pathExtname e (fsPath u) \<noteq> ''.sh''"
  shows "updateDiagnostics e u = None \<and> runUpdateDiagnostics e u st = st"
  using assms
  by (simp add: updateDiagnostics_def runUpdateDiagnostics_def getEmbeddedLanguageType_def)

theorem updateDiagnostics_other_extension_witness:
  "pathExtname (exampleEnv Bash [] (\<lambda>p. []) {}) (fsPath recipeUri) \<noteq> ''.py'' \<and>
   pathExtname (exampleEnv Bash [] (\<lambda>p. []) {}) (fsPath recipeUri) \<noteq> ''.sh'' \<and>
   updateDiagnostics (exampleEnv Bash [] (\<lambda>p. []) {}) recipeUri = None \<and>
   runUpdateDiagnostics (exampleEnv Bash [] (\<lambda>p. []) {}) recipeUri emptyCollections = emptyCollections"
proof -
  have py: "pathExtname (exampleEnv Bash [] (\<lambda>p. []) {}) (fsPath recipeUri) \<noteq> ''.py''"
    by (simp add: exampleEnv_def recipeUri_def)
  have sh: "pathExtname (exampleEnv Bash [] (\<lambda>p. []) {}) (fsPath recipeUri) \<noteq> ''.sh''"
    by (simp add: exampleEnv_def recipeUri_def)
  show ?thesis
    using py sh updateDiagnostics_other_extension [OF py sh, of emptyCollections] by simp
qed

text \<open>
  C8. Two calls of updateDiagnostics on the same uri with the same answers of all
  collaborators publish the same diagnostics: they can differ only in the order in which
  the tasks finish, and the collection, the uri and the multiset of the published
  diagnostics do not depend on it. Repeating the call on the collections it produced
  leaves them as they are.
\<close>

theorem updateDiagnostics_same_set:
  assumes "mset order2 = mset (completionOrder e u)"
  shows "map_option (\<lambda>c. (collection c, key c, mset (diagnostics c)))
           (updateDiagnostics (e\<lparr>completionOrder := (completionOrder e)(u := order2)\<rparr>) u) =
         map_option (\<lambda>c. (collection c, key c, mset (diagnostics c))) (updateDiagnostics e u) \<and>
         runUpdateDiagnostics e u (runUpdateDiagnostics e u st) = runUpdateDiagnostics e u st"
proof
  show "map_option (\<lambda>c. (collection c, key c, mset (diagnostics c)))
           (updateDiagnostics (e\<lparr>completionOrder := (completionOrder e)(u := order2)\<rparr>) u) =
         map_option (\<lambda>c. (collection c, key c, mset (diagnostics c))) (updateDiagnostics e u)"
    by (simp add: updateDiagnostics_def getEmbeddedLanguageType_def Let_def
        cleanDiagnostic_ignores_order mset_inCompletionOrder [OF assms] split: option.splits)
next
  show "runUpdateDiagnostics e u (runUpdateDiagnostics e u st) = runUpdateDiagnostics e u st"
    by (cases "updateDiagnostics e u"; cases "collection (the (updateDiagnostics e u))")
       (simp_all add: runUpdateDiagnostics_def diagnosticCollectionSet_def)
qed

theorem updateDiagnostics_same_set_witness:
  "mset [1, 0] =
     mset (completionOrder
             (exampleEnv Bash [unquotedDiagnostic, unassignedDiagnostic ''FOO''] noDefinitions {}) shUri) \<and>
   updateDiagnostics
     (exampleEnv Bash [unquotedDiagnostic, unassignedDiagnostic ''FOO''] noDefinitions {}) shUri =
     Some \<lparr>collection = Bash, key = recipeUri,
           diagnostics = [adjustedDiagnostic Bash unquotedDiagnostic exampleRange,
                          adjustedDiagnostic Bash (unassignedDiagnostic ''FOO'') exampleRange]\<rparr> \<and>
   updateDiagnostics
     ((exampleEnv Bash [unquotedDiagnostic, unassignedDiagnostic ''FOO''] noDefinitions {})
        \<lparr>completionOrder := (\<lambda>u. [0, 1])(shUri := [1, 0])\<rparr>) shUri =
     Some \<lparr>collection = Bash, key = recipeUri,
           diagnostics = [adjustedDiagnostic Bash (unassignedDiagnostic ''FOO'') exampleRange,
                          adjustedDiagnostic Bash unquotedDiagnostic exampleRange]\<rparr> \<and>
   mset [adjustedDiagnostic Bash (unassignedDiagnostic ''FOO'') exampleRange,
         adjustedDiagnostic Bash unquotedDiagnostic exampleRange] =
   mset [adjustedDiagnostic Bash unquotedDiagnostic exampleRange,
         adjustedDiagnostic Bash (unassignedDiagnostic ''FOO'') exampleRange]"
proof -
  let ?e = "exampleEnv Bash [unquotedDiagnostic, unassignedDiagnostic ''FOO''] noDefinitions {}"
  have order: "completionOrder ?e = (\<lambda>u. [0, 1])"
    by (simp add: exampleEnv_def upt_rec)
  have h: "mset [1, 0] = mset (completionOrder ?e shUri)"
    by (simp add: order)
  have call1: "updateDiagnostics ?e shUri =
     Some \<lparr>collection = Bash, key = recipeUri,
           diagnostics = [adjustedDiagnostic Bash unquotedDiagnostic exampleRange,
                          adjustedDiagnostic Bash (unassignedDiagnostic ''FOO'') exampleRange]\<rparr>"
    by (simp add: eval_defs)
  have call2: "updateDiagnostics (?e\<lparr>completionOrder := (\<lambda>u. [0, 1])(shUri := [1, 0])\<rparr>) shUri =
     Some \<lparr>collection = Bash, key = recipeUri,
           diagnostics = [adjustedDiagnostic Bash (unassignedDiagnostic ''FOO'') exampleRange,
                          adjustedDiagnostic Bash unquotedDiagnostic exampleRange]\<rparr>"
    by (simp add: eval_defs)
  from updateDiagnostics_same_set [OF h, of emptyCollections] h call1 call2
  show ?thesis by (simp add: order)
qed

text \<open>
  C9. When the host lists no uri with diagnostics, reviewDiagnostics makes no call of
  \<^verbatim>\<open>set\<close>, and both collections stay as they were.
\<close>

theorem reviewDiagnostics_no_uri:
  assumes "getAllDiagnostics e = []"
  shows "reviewDiagnostics e = [] \<and> runReviewDiagnostics e st = st"
  using assms
  by (simp add: reviewDiagnostics_def runReviewDiagnostics_def map_filter_simps)

theorem reviewDiagnostics_no_uri_witness:
  "getAllDiagnostics (exampleEnv Bash [] (\<lambda>p. []) {}) = [] \<and>
   reviewDiagnostics (exampleEnv Bash [] (\<lambda>p. []) {}) = [] \<and>
   runReviewDiagnostics (exampleEnv Bash [] (\<lambda>p. []) {}) emptyCollections = emptyCollections"
proof -
  have h: "getAllDiagnostics (exampleEnv Bash [] (\<lambda>p. []) {}) = []"
    by (simp add: exampleEnv_def)
  show ?thesis
    using h reviewDiagnostics_no_uri [OF h, of emptyCollections] by simp
qed

text \<open>
  C10. Every published diagnostic is the raw diagnostic it comes from with the properties
  message, range and source replaced: putting the three raw values back gives the raw
  diagnostic, so severity, code, related information, tags and every other property are
  carried over unchanged.
\<close>

theorem published_fields_carried_over:
  assumes "updateDiagnostics e u = Some c" and "p \<in> set (diagnostics c)"
  shows "\<exists>original infos d r.
           embeddedDocumentOf e u (collection c) original infos \<and>
           d \<in> set (getDiagnostics e (infosUri infos)) \<and>
           cleanDiagnostic e (collection c) original
             (openTextDocument e (fsPath (infosUri infos))) infos d = Some p \<and>
           p = d\<lparr>message := fixDiagnosticMessagePythonImport d, drange := r,
                 source := Some ((case source d of None \<Rightarrow> ''undefined'' | Some s \<Rightarrow> s)
                                 @ '', '' @ diagnosticCollectionName (collection c))\<rparr> \<and>
           p\<lparr>message := message d, drange := drange d, source := source d\<rparr> = d \<and>
           severity p = severity d \<and> code p = code d \<and> relatedInfo p = relatedInfo d \<and>
           tags p = tags d \<and> hasDiagnosticCode p = hasDiagnosticCode d \<and>
           diagnostic.more p = diagnostic.more d"
proof -
  from published_from_task [OF assms] obtain original infos d where
    ctx: "embeddedDocumentOf e u (collection c) original infos"
      "d \<in> set (getDiagnostics e (infosUri infos))"
    and cd: "cleanDiagnostic e (collection c) original
             (openTextDocument e (fsPath (infosUri infos))) infos d = Some p"
    by blast
  from cd obtain r where p: "p = adjustedDiagnostic (collection c) d r"
    unfolding cleanDiagnostic_Some by blast
  have "p = d\<lparr>message := fixDiagnosticMessagePythonImport d, drange := r,
                 source := Some ((case source d of None \<Rightarrow> ''undefined'' | Some s \<Rightarrow> s)
                                 @ '', '' @ diagnosticCollectionName (collection c))\<rparr>"
    and "p\<lparr>message := message d, drange := drange d, source := source d\<rparr> = d"
    and "severity p = severity d" and "code p = code d" and "relatedInfo p = relatedInfo d"
    and "tags p = tags d" and "hasDiagnosticCode p = hasDiagnosticCode d"
    and "diagnostic.more p = diagnostic.more d"
    by (simp_all add: p adjustedDiagnostic_def)
  with ctx cd show ?thesis by blast
qed

theorem published_fields_carried_over_witness:
  "updateDiagnostics (exampleEnv Python [anonymousDiagnostic\<lparr>hasDiagnosticCode := None\<rparr>]
       noDefinitions {}) pyUri =
     Some \<lparr>collection = Python, key = recipeUri,
           diagnostics = [anonymousDiagnostic
              \<lparr>source := Some ''Pylance, bitbake-python'', hasDiagnosticCode := None\<rparr>]\<rparr> \<and>
   (\<exists>d. d \<in> set [anonymousDiagnostic\<lparr>hasDiagnosticCode := None\<rparr>] \<and>
        severity (anonymousDiagnostic
              \<lparr>source := Some ''Pylance, bitbake-python'', hasDiagnosticCode := None\<rparr>) = severity d \<and>
        tags (anonymousDiagnostic
              \<lparr>source := Some ''Pylance, bitbake-python'', hasDiagnosticCode := None\<rparr>) = tags d \<and>
        code (anonymousDiagnostic
              \<lparr>source := Some ''Pylance, bitbake-python'', hasDiagnosticCode := None\<rparr>) = code d)"
proof -
  let ?e = "exampleEnv Python [anonymousDiagnostic\<lparr>hasDiagnosticCode := None\<rparr>] noDefinitions {}"
  let ?p = "anonymousDiagnostic\<lparr>source := Some ''Pylance, bitbake-python'', hasDiagnosticCode := None\<rparr>"
  let ?c = "\<lparr>collection = Python, key = recipeUri, diagnostics = [?p]\<rparr>"
  have call: "updateDiagnostics ?e pyUri = Some ?c"
    by (simp add: eval_defs)
  have inp: "?p \<in> set (diagnostics ?c)" by simp
  have ds: "getDiagnostics ?e i = [anonymousDiagnostic\<lparr>hasDiagnosticCode := None\<rparr>]" for i
    by (simp add: exampleEnv_def)
  from published_fields_carried_over [OF call inp]
  have "\<exists>d. d \<in> set [anonymousDiagnostic\<lparr>hasDiagnosticCode := None\<rparr>] \<and>
        severity ?p = severity d \<and> tags ?p = tags d \<and> code ?p = code d"
    unfolding ds by blast
  with call show ?thesis by simp
qed

end
